theory Spec2Isabelle
  imports Main "HOL-Library.Sublist"
begin

section \<open>JavaScript values, objects and thrown values\<close>

text \<open>
  The wallet core (\<^verbatim>\<open>wallet.js\<close>, the file \<^verbatim>\<open>src/unnamed/part_000\<close>) and
  \<^verbatim>\<open>src/src/address.js\<close> are JavaScript. The values the modelled code handles are
  \<^verbatim>\<open>undefined\<close>, \<^verbatim>\<open>null\<close>, booleans, integers, strings and Error objects
  (a name and a message). Floating point numbers, \<^verbatim>\<open>NaN\<close> and nested objects are not
  values of this model. A string is a list of characters; its \<^verbatim>\<open>length\<close> is the
  length of the list.
\<close>

datatype jsval =
    JUndefined
  | JNull
  | JBool bool
  | JNum int
  | JStr string
  | JErr string string

text \<open>An object literal is the list of its properties, in the order they are written.\<close>

type_synonym jsobj = "(string \<times> jsval) list"

text \<open>\<^verbatim>\<open>if (v)\<close>, \<^verbatim>\<open>!v\<close>, \<^verbatim>\<open>v || d\<close>: the truthiness of a value.\<close>

fun truthy :: "jsval \<Rightarrow> bool" where
  "truthy JUndefined = False"
| "truthy JNull = False"
| "truthy (JBool b) = b"
| "truthy (JNum n) = (n \<noteq> 0)"
| "truthy (JStr s) = (s \<noteq> [])"
| "truthy (JErr n m) = True"

text \<open>\<^verbatim>\<open>v == null\<close>: true of \<^verbatim>\<open>null\<close> and \<^verbatim>\<open>undefined\<close> only.\<close>

fun is_nullish :: "jsval \<Rightarrow> bool" where
  "is_nullish JUndefined = True"
| "is_nullish JNull = True"
| "is_nullish v = False"

text \<open>
  \<^verbatim>\<open>v.length\<close> where \<^verbatim>\<open>v\<close> is not nullish: the length of a string, and
  \<^verbatim>\<open>undefined\<close> (here \<open>None\<close>) for the other values of the model.
\<close>

fun js_length :: "jsval \<Rightarrow> nat option" where
  "js_length (JStr s) = Some (length s)"
| "js_length v = None"

text \<open>\<^verbatim>\<open>obj.key\<close>: the property, or \<^verbatim>\<open>undefined\<close> when the object has none.\<close>

definition js_prop :: "jsobj \<Rightarrow> string \<Rightarrow> jsval" where
  "js_prop obj k = (case map_of obj k of None \<Rightarrow> JUndefined | Some v \<Rightarrow> v)"

text \<open>The decimal digits of a natural number.\<close>

definition digit_char :: "nat \<Rightarrow> char" where
  "digit_char n = ''0123456789'' ! (n mod 10)"

fun show_nat :: "nat \<Rightarrow> string" where
  "show_nat n = (if n < 10 then [digit_char n] else show_nat (n div 10) @ [digit_char (n mod 10)])"

text \<open>String conversion, as in \<^verbatim>\<open>'Error Saving Wallet: ' + e\<close>.\<close>

fun js_toString :: "jsval \<Rightarrow> string" where
  "js_toString JUndefined = ''undefined''"
| "js_toString JNull = ''null''"
| "js_toString (JBool b) = (if b then ''true'' else ''false'')"
| "js_toString (JNum n) = (if n < 0 then CHR ''-'' # show_nat (nat (- n)) else show_nat (nat n))"
| "js_toString (JStr s) = s"
| "js_toString (JErr n m) = n @ '': '' @ m"

section \<open>The wallet, the session state and the collaborators\<close>

text \<open>
  \<^verbatim>\<open>MyWallet.wallet\<close> is an instance of the class \<^verbatim>\<open>Wallet\<close> of
  \<^verbatim>\<open>blockchain-wallet.js\<close>, which is not among the sources. The record holds the
  properties \<^verbatim>\<open>wallet.js\<close> reads. \<open>activeAddresses\<close> is the value of the getter, or
  the value it throws; \<open>hdwallet\<close> is \<open>None\<close> when \<^verbatim>\<open>wallet.hdwallet\<close> is undefined,
  \<open>Some None\<close> when its \<^verbatim>\<open>accounts\<close> are undefined, and otherwise the
  \<^verbatim>\<open>labeledReceivingAddresses\<close> of each account.
\<close>

record Wallet =
  guid :: jsval
  sharedKey :: jsval
  isEncryptionConsistent :: jsval
  isUpgradedToHD :: jsval
  activeAddresses :: "jsval + string list"
  hdwallet :: "string list list option option"
  latestBlock :: jsval

text \<open>
  The effects of the code on the world outside it, in the order they happen: what is
  logged, the events sent to the event sink, the calls to the cryptography collaborator,
  the requests handed to the transport, the timers, and the calls of the callbacks the
  caller supplied.
\<close>

datatype event =
    ConsoleLog string
  | LocationReplace string
  | LocationReload
  | SendEvent string "jsobj option"
  | JsonStringify
  | EncryptWallet string
  | DecryptWallet string
  | SecurePost string jsobj
  | ApiRequest string string jsobj
  | CheckWalletChecksum "string option"
  | SetTimeout nat
  | ClearTimeout
  | GetHistory
  | WsConnect
  | SyncWalletRequested
  | Callback string "jsval list"

text \<open>
  The session state: the module variables of \<^verbatim>\<open>wallet.js\<close> (\<open>isInitialized\<close>,
  \<open>wallet\<close>, and \<open>last_on_change\<close> of \<^verbatim>\<open>socketConnect\<close>), the variables behind the
  getters and setters of \<^verbatim>\<open>WalletStore\<close>, and the trace of effects so far.
\<close>

record store =
  isInitialized :: bool
  wallet :: "Wallet option"
  last_on_change :: "string option"
  password :: jsval
  ws_guid :: jsval
  encryptedWalletData :: "string option"
  payloadChecksum :: "string option"
  pbkdf2Iterations :: jsval
  language :: "string option"
  realAuthType :: jsval
  syncPubKeys :: jsval
  isRestoringWallet :: bool
  isPolling :: bool
  counter :: nat
  isLogoutDisabled :: bool
  isSynchronizedWithServer :: bool
  trace :: "event list"

text \<open>A frame of the push channel, as \<^verbatim>\<open>JSON.parse\<close> returns it.\<close>

record frame =
  frame_op :: string
  frame_checksum :: "string option"
  frame_x :: jsval

text \<open>
  The collaborators: functions of modules that are not among the sources
  (\<^verbatim>\<open>WalletCrypto\<close>, \<^verbatim>\<open>Helpers\<close>, \<^verbatim>\<open>API\<close>, the class \<^verbatim>\<open>Wallet\<close>) and of the
  JavaScript library. A function that can throw returns \<open>Inl\<close> of the thrown value.
  \<open>decryptWallet\<close> returns \<open>Inl e\<close> when \<^verbatim>\<open>WalletCrypto.decryptWallet\<close> calls its error
  callback with \<open>e\<close>, and \<open>Inr (obj, rootContainer)\<close> when it calls its success callback;
  the root container is \<open>None\<close> when it is falsy, and otherwise its
  \<^verbatim>\<open>pbkdf2_iterations\<close>. Decryption is synchronous: the callback runs inside the call.
\<close>

record env =
  API_CODE :: jsval
  clientTime :: int
  json_stringify :: "Wallet \<Rightarrow> jsval + string"
  json_parse :: "string \<Rightarrow> frame option"
  encryptWallet :: "string \<Rightarrow> jsval \<Rightarrow> jsval \<Rightarrow> nat \<Rightarrow> jsval + string"
  decryptWallet :: "string \<Rightarrow> jsval \<Rightarrow> jsval + (jsobj \<times> jsval option)"
  new_Wallet :: "jsobj \<Rightarrow> Wallet"
  sha256_hex :: "string \<Rightarrow> string"
  isHex :: "string option \<Rightarrow> bool"
  toUpperCase :: "string \<Rightarrow> string"

text \<open>
  A function of the code returns the state it leaves, and the value it threw if it threw
  one: \<open>(None, s)\<close> is a normal return, \<open>(Some e, s)\<close> is \<^verbatim>\<open>throw e\<close>.
\<close>

type_synonym result = "jsval option \<times> store"

definition ret :: "store \<Rightarrow> result" where
  "ret s = (None, s)"

definition throw :: "jsval \<Rightarrow> store \<Rightarrow> result" where
  "throw e s = (Some e, s)"

definition andThen :: "result \<Rightarrow> (store \<Rightarrow> result) \<Rightarrow> result" where
  "andThen r f = (case r of (None, s) \<Rightarrow> f s | (Some e, s) \<Rightarrow> (Some e, s))"

definition emit :: "event \<Rightarrow> store \<Rightarrow> store" where
  "emit e s = s\<lparr>trace := trace s @ [e]\<rparr>"

text \<open>
  A callback the caller supplied is opaque: the model records that it was called, and with
  what. It is taken to return normally and not to call back into the wallet.
\<close>

definition callback :: "string \<Rightarrow> jsval list \<Rightarrow> store \<Rightarrow> store" where
  "callback name args s = emit (Callback name args) s"

subsection \<open>WalletStore\<close>

text \<open>
  Modelled from the spec: \<^verbatim>\<open>wallet-store.js\<close> is not among the sources. Its setters
  store their argument in the variable the getter of the same name reads (the flags of
  SyncState in the spec's data model); \<^verbatim>\<open>sendEvent\<close> hands a named event to the event
  sink; the payload checksum is a hash of the stored ciphertext, and storing a ciphertext
  refreshes it (\<^verbatim>\<open>syncWallet\<close> reads the new checksum right after it stores the new
  ciphertext).
\<close>

definition sendEvent :: "string \<Rightarrow> jsobj option \<Rightarrow> store \<Rightarrow> store" where
  "sendEvent name data s = emit (SendEvent name data) s"

definition disableLogout :: "store \<Rightarrow> store" where
  "disableLogout s = s\<lparr>isLogoutDisabled := True\<rparr>"

definition enableLogout :: "store \<Rightarrow> store" where
  "enableLogout s = s\<lparr>isLogoutDisabled := False\<rparr>"

definition setIsSynchronizedWithServer :: "bool \<Rightarrow> store \<Rightarrow> store" where
  "setIsSynchronizedWithServer b s = s\<lparr>isSynchronizedWithServer := b\<rparr>"

definition setRestoringWallet :: "bool \<Rightarrow> store \<Rightarrow> store" where
  "setRestoringWallet b s = s\<lparr>isRestoringWallet := b\<rparr>"

definition setIsPolling :: "bool \<Rightarrow> store \<Rightarrow> store" where
  "setIsPolling b s = s\<lparr>isPolling := b\<rparr>"

definition incrementCounter :: "store \<Rightarrow> store" where
  "incrementCounter s = s\<lparr>counter := counter s + 1\<rparr>"

definition unsafeSetPassword :: "jsval \<Rightarrow> store \<Rightarrow> store" where
  "unsafeSetPassword pw s = s\<lparr>password := pw\<rparr>"

definition setPbkdf2Iterations :: "jsval \<Rightarrow> store \<Rightarrow> store" where
  "setPbkdf2Iterations n s = s\<lparr>pbkdf2Iterations := n\<rparr>"

definition setPayloadChecksum :: "string option \<Rightarrow> store \<Rightarrow> store" where
  "setPayloadChecksum c s = s\<lparr>payloadChecksum := c\<rparr>"

definition generatePayloadChecksum :: "env \<Rightarrow> store \<Rightarrow> string option" where
  "generatePayloadChecksum env s =
     (case encryptedWalletData s of None \<Rightarrow> None | Some d \<Rightarrow> Some (sha256_hex env d))"

definition setEncryptedWalletData :: "env \<Rightarrow> string option \<Rightarrow> store \<Rightarrow> store" where
  "setEncryptedWalletData env data s =
     (case data of
        None \<Rightarrow> s\<lparr>encryptedWalletData := None, payloadChecksum := None\<rparr>
      | Some d \<Rightarrow>
          if d = [] then s\<lparr>encryptedWalletData := None, payloadChecksum := None\<rparr>
          else s\<lparr>encryptedWalletData := Some d, payloadChecksum := Some (sha256_hex env d)\<rparr>)"

section \<open>wallet.js\<close>

subsection \<open>logout\<close>

text \<open>
  \<^verbatim>\<open>MyWallet.logout(force)\<close>, lines 558 to 571. The request's two handlers both reload
  the page (\<open>logout_reload\<close>).
\<close>

definition logout :: "env \<Rightarrow> jsval \<Rightarrow> store \<Rightarrow> store" where
  "logout env force s =
     (if \<not> truthy force \<and> isLogoutDisabled s then s
      else emit (ApiRequest ''GET'' ''wallet/logout''
                   [(''format'', JStr ''plain''), (''api_code'', API_CODE env)])
             (sendEvent ''logging_out'' None s))"

definition logout_reload :: "store \<Rightarrow> store" where
  "logout_reload s = emit LocationReload s"

subsection \<open>The live update channel\<close>

text \<open>
  \<^verbatim>\<open>socketConnect\<close>, lines 25 to 75: it connects the socket and starts with
  \<^verbatim>\<open>last_on_change = null\<close>. \<^verbatim>\<open>setIsInitialized\<close>, lines 374 to 378, calls it once.
\<close>

definition socketConnect :: "store \<Rightarrow> store" where
  "socketConnect s = (emit WsConnect s)\<lparr>last_on_change := None\<rparr>"

definition setIsInitialized :: "store \<Rightarrow> store" where
  "setIsInitialized s = (if isInitialized s then s else (socketConnect s)\<lparr>isInitialized := True\<rparr>)"

text \<open>\<^verbatim>\<open>MyWallet.wallet.getHistory()\<close>: a TypeError when there is no wallet.\<close>

definition getHistory :: "store \<Rightarrow> result" where
  "getHistory s =
     (case wallet s of
        None \<Rightarrow> throw (JErr ''TypeError'' ''Cannot read property of undefined'') s
      | Some w \<Rightarrow> ret (emit GetHistory s))"

subsection \<open>getWallet\<close>

text \<open>
  \<^verbatim>\<open>MyWallet.getWallet(success, error)\<close>, lines 87 to 115. \<open>getWallet\<close> is the call
  itself: it builds the request and hands it to \<^verbatim>\<open>API.securePostCallbacks\<close>. The
  response arrives in a later task; \<open>getWallet_response\<close> and \<open>getWallet_failed\<close> are the
  two handlers. \<open>success\<close> and \<open>error\<close> say whether the caller passed the callback;
  \<open>payload\<close> is \<^verbatim>\<open>obj.payload\<close>, \<open>None\<close> when the response has none.
\<close>

definition getWallet_data :: "store \<Rightarrow> jsobj" where
  "getWallet_data s =
     [(''method'', JStr ''wallet.aes.json''), (''format'', JStr ''json'')] @
     (case payloadChecksum s of
        None \<Rightarrow> []
      | Some c \<Rightarrow> if length c > 0 then [(''checksum'', JStr c)] else [])"

definition getWallet :: "store \<Rightarrow> store" where
  "getWallet s = emit (SecurePost ''wallet'' (getWallet_data s)) s"

text \<open>
  \<^verbatim>\<open>decryptAndInitializeWallet\<close>, lines 117 to 154. Every caller in the file passes
  function expressions for \<open>success\<close> and \<open>error\<close>, so its two assertions hold; the
  callbacks are functions of the state. \<open>decrypt_success\<close> says whether that optional
  callback was passed.
\<close>

definition decryptAndInitializeWallet ::
  "env \<Rightarrow> (store \<Rightarrow> result) \<Rightarrow> (jsval \<Rightarrow> store \<Rightarrow> result) \<Rightarrow> bool \<Rightarrow> store \<Rightarrow> result" where
  "decryptAndInitializeWallet env success error decrypt_success s =
     (case encryptedWalletData s of
        None \<Rightarrow> error (JStr ''No Wallet Data To Decrypt'') s
      | Some d \<Rightarrow>
          if length d = 0 then error (JStr ''No Wallet Data To Decrypt'') s
          else
            (case decryptWallet env d (password s) of
               Inl e \<Rightarrow> error e (emit (DecryptWallet d) s)
             | Inr (obj, rootContainer) \<Rightarrow>
                 let s1 = emit (DecryptWallet d) s;
                     s2 = (if decrypt_success then callback ''decrypt_success'' [] s1 else s1);
                     s3 = s2\<lparr>wallet := Some (new_Wallet env obj)\<rparr>;
                     s4 = (case rootContainer of
                             None \<Rightarrow> s3
                           | Some iterations \<Rightarrow> setPbkdf2Iterations iterations s3);
                     s5 = (if payloadChecksum s4 = None \<or> payloadChecksum s4 = Some []
                           then setPayloadChecksum (generatePayloadChecksum env s4) s4
                           else s4);
                     s6 = (if isUpgradedToHD (new_Wallet env obj) = JBool False
                           then sendEvent ''hd_wallets_does_not_exist'' None s5
                           else s5)
                 in success (setIsInitialized s6)))"

definition getWallet_response :: "env \<Rightarrow> bool \<Rightarrow> bool \<Rightarrow> string option \<Rightarrow> store \<Rightarrow> result" where
  "getWallet_response env success error payload s =
     (if payload = None \<or> payload = Some [] \<or> payload = Some ''Not modified''
      then ret (if success then callback ''success'' [] s else s)
      else
        decryptAndInitializeWallet env
          (\<lambda>s. andThen (getHistory s)
                  (\<lambda>s. ret (if success then callback ''success'' [] s else s)))
          (\<lambda>e s. ret (if error then callback ''error'' [] (logout env (JBool True) s)
                       else logout env (JBool True) s))
          False
          (setEncryptedWalletData env payload s))"

definition getWallet_failed :: "bool \<Rightarrow> store \<Rightarrow> store" where
  "getWallet_failed error s = (if error then callback ''error'' [] s else s)"

subsection \<open>initializeWallet\<close>

text \<open>
  \<^verbatim>\<open>didDecryptWallet\<close>, lines 78 to 82, and \<^verbatim>\<open>MyWallet.initializeWallet\<close>, lines 339 to
  366. \<open>success\<close>, \<open>other_error\<close> and \<open>decrypt_success\<close> say whether the caller passed
  the callback; the fifth parameter of the source, \<^verbatim>\<open>build_hd_success\<close>, is passed on
  and never used.
\<close>

definition didDecryptWallet :: "store \<Rightarrow> store" where
  "didDecryptWallet s = callback ''success'' [] (getWallet s)"

definition initializeWallet :: "env \<Rightarrow> jsval \<Rightarrow> bool \<Rightarrow> bool \<Rightarrow> bool \<Rightarrow> store \<Rightarrow> result" where
  "initializeWallet env pw success other_error decrypt_success s =
     (if \<not> success then throw (JErr ''AssertionError'' ''Success callback required'') s
      else if \<not> other_error then throw (JErr ''AssertionError'' ''Error callback required'') s
      else if isInitialized s \<or> isRestoringWallet s then ret s
      else
        decryptAndInitializeWallet env
          (\<lambda>s. ret (didDecryptWallet (setRestoringWallet False s)))
          (\<lambda>e s. ret (callback ''other_error'' [e]
                        (sendEvent ''error_restoring_wallet'' None
                          (sendEvent ''msg'' (Some [(''type'', JStr ''error''), (''message'', e)])
                            (setRestoringWallet False s)))))
          decrypt_success
          (unsafeSetPassword pw (setRestoringWallet True s)))"

subsection \<open>syncWallet\<close>

text \<open>
  \<^verbatim>\<open>syncWallet(successcallback, errorcallback)\<close>, lines 381 to 492: the push
  operation. \<open>successcallback\<close> and \<open>errorcallback\<close> say whether the caller passed the
  callback. The operation is written as its source is, handler by handler:
  \<^item> \<open>syncWallet\<close> is the call itself, up to the point where it hands the request to
    \<^verbatim>\<open>API.securePostCallbacks\<close> (or fails before that);
  \<^item> \<open>syncWallet_posted\<close> is the success handler of the request, which starts the
    checksum verification; \<open>syncWallet_checksum_ok\<close> and \<open>syncWallet_checksum_mismatch\<close>
    are the two handlers of \<^verbatim>\<open>WalletNetwork.checkWalletChecksum\<close>;
  \<^item> \<open>syncWallet_post_error\<close> is the error handler of the request;
  \<^item> \<open>syncWallet_run\<close> runs the call and then the handlers the transport's reply selects.
\<close>

definition opt_str :: "string option \<Rightarrow> jsval" where
  "opt_str x = (case x of None \<Rightarrow> JNull | Some s \<Rightarrow> JStr s)"

fun join :: "string \<Rightarrow> string list \<Rightarrow> string" where
  "join sep [] = []"
| "join sep [x] = x"
| "join sep (x # y # ys) = x @ sep @ join sep (y # ys)"

datatype sync_outcome = Threw jsval | Returned | Posted "string option"

text \<open>\<^verbatim>\<open>panic\<close>, lines 382 to 387.\<close>

definition panic :: "string \<Rightarrow> store \<Rightarrow> sync_outcome \<times> store" where
  "panic e s =
     (Threw (JStr ''Save disabled.''),
      emit (LocationReplace ''/'') (emit (ConsoleLog (''Panic '' @ e)) s))"

text \<open>
  \<^verbatim>\<open>_errorcallback\<close>, lines 401 to 409. Its \<^verbatim>\<open>MyWallet.getWallet()\<close> passes no
  callbacks; the reply to that fetch is handled in a later task, by
  \<open>getWallet_response False False\<close>.
\<close>

definition syncWallet_errorcallback :: "bool \<Rightarrow> jsval \<Rightarrow> store \<Rightarrow> store" where
  "syncWallet_errorcallback errorcallback e s =
     (let s1 = sendEvent ''on_backup_wallet_error'' None s;
          s2 = sendEvent ''msg''
                 (Some [(''type'', JStr ''error''),
                        (''message'', JStr (''Error Saving Wallet: '' @ js_toString e))]) s1;
          s3 = getWallet s2
      in if errorcallback then callback ''errorcallback'' [e] s3 else s3)"

text \<open>The two \<^verbatim>\<open>catch (e)\<close> blocks, lines 480 to 483 and 488 to 491.\<close>

definition syncWallet_catch :: "bool \<Rightarrow> jsval \<Rightarrow> store \<Rightarrow> sync_outcome \<times> store" where
  "syncWallet_catch errorcallback e s =
     (Returned, enableLogout (syncWallet_errorcallback errorcallback e s))"

text \<open>
  The success callback of the self-check decryption, lines 421 to 484: it stores the new
  ciphertext, builds the request and hands it to the transport.
\<close>

definition syncWallet_decrypted ::
  "env \<Rightarrow> bool \<Rightarrow> Wallet \<Rightarrow> string \<Rightarrow> store \<Rightarrow> sync_outcome \<times> store" where
  "syncWallet_decrypted env errorcallback w crypted s =
     (let oldChecksum = payloadChecksum s;
          s1 = sendEvent ''on_backup_wallet_start'' None s;
          s2 = setEncryptedWalletData env (Some crypted) s1;
          new_checksum = payloadChecksum s2;
          data = [(''length'', JNum (int (length crypted))),
                  (''payload'', JStr crypted),
                  (''checksum'', opt_str new_checksum),
                  (''method'', JStr ''update''),
                  (''format'', JStr ''plain''),
                  (''language'', opt_str (language s2))] @
                 (if isHex env oldChecksum then [(''old_checksum'', opt_str oldChecksum)] else []);
          hdAddresses = (case hdwallet w of Some (Some accounts) \<Rightarrow> concat accounts | _ \<Rightarrow> [])
      in if truthy (syncPubKeys s2)
         then (case activeAddresses w of
                 Inl e \<Rightarrow> syncWallet_catch errorcallback e s2
               | Inr active \<Rightarrow>
                   (Posted new_checksum,
                    emit (SecurePost ''wallet''
                            (data @ [(''active'', JStr (join ''|'' (active @ hdAddresses)))])) s2))
         else (Posted new_checksum, emit (SecurePost ''wallet'' data) s2))"

text \<open>The \<^verbatim>\<open>try\<close> block, lines 410 to 487, entered with logout disabled.\<close>

definition syncWallet_try :: "env \<Rightarrow> bool \<Rightarrow> Wallet \<Rightarrow> store \<Rightarrow> sync_outcome \<times> store" where
  "syncWallet_try env errorcallback w s =
     (case json_stringify env w of
        Inl e \<Rightarrow> syncWallet_catch errorcallback e (emit JsonStringify s)
      | Inr data \<Rightarrow>
          (case encryptWallet env data (password s) (pbkdf2Iterations s)
                  (if truthy (isUpgradedToHD w) then 3 else 2) of
             Inl e \<Rightarrow>
               syncWallet_catch errorcallback e (emit (EncryptWallet data) (emit JsonStringify s))
           | Inr crypted \<Rightarrow>
               let s1 = emit (EncryptWallet data) (emit JsonStringify s) in
               if length crypted = 0
               then syncWallet_catch errorcallback (JStr ''Error encrypting the JSON output'') s1
               else
                 (case decryptWallet env crypted (password s) of
                    Inl e \<Rightarrow>
                      syncWallet_catch errorcallback (JStr ''Decryption failed'')
                        (emit (ConsoleLog (js_toString e)) (emit (DecryptWallet crypted) s1))
                  | Inr obj \<Rightarrow>
                      syncWallet_decrypted env errorcallback w crypted
                        (emit (DecryptWallet crypted) s1))))"

text \<open>
  The shared key test of lines 393 to 395. \<^verbatim>\<open>!MyWallet.wallet\<close> is false where it
  stands: line 389 has read a property of the wallet already.
\<close>

definition sharedKey_unset :: "Wallet \<Rightarrow> bool" where
  "sharedKey_unset w =
     (\<not> truthy (sharedKey w) \<or> js_length (sharedKey w) = Some 0 \<or> js_length (sharedKey w) \<noteq> Some 36)"

definition syncWallet :: "env \<Rightarrow> bool \<Rightarrow> bool \<Rightarrow> store \<Rightarrow> sync_outcome \<times> store" where
  "syncWallet env successcallback errorcallback s =
     (case wallet s of
        None \<Rightarrow> (Threw (JErr ''TypeError'' ''Cannot read property of undefined''), s)
      | Some w \<Rightarrow>
          if isEncryptionConsistent w = JBool False
          then panic ''The wallet was not fully enc/decrypted'' s
          else if sharedKey_unset w
          then (Threw (JStr ''Cannot backup wallet now. Shared key is not set''), s)
          else syncWallet_try env errorcallback w (disableLogout s))"

definition syncWallet_posted :: "string option \<Rightarrow> store \<Rightarrow> store" where
  "syncWallet_posted new_checksum s = emit (CheckWalletChecksum new_checksum) s"

definition syncWallet_checksum_ok :: "bool \<Rightarrow> store \<Rightarrow> store" where
  "syncWallet_checksum_ok successcallback s =
     (let s1 = enableLogout (setIsSynchronizedWithServer True s);
          s2 = sendEvent ''on_backup_wallet_success'' None s1
      in if successcallback then callback ''successcallback'' [] s2 else s2)"

definition syncWallet_checksum_mismatch :: "bool \<Rightarrow> store \<Rightarrow> store" where
  "syncWallet_checksum_mismatch errorcallback s =
     enableLogout
       (syncWallet_errorcallback errorcallback (JStr ''Checksum Did Not Match Expected Value'') s)"

definition syncWallet_post_error :: "bool \<Rightarrow> jsval \<Rightarrow> store \<Rightarrow> store" where
  "syncWallet_post_error errorcallback e s = syncWallet_errorcallback errorcallback e (enableLogout s)"

text \<open>
  What the transport answers to the upload: an error, or an acknowledgement followed by
  the verdict of the checksum verification (\<open>True\<close> when the checksums match).
\<close>

datatype post_reply = PostFailed jsval | PostOk bool

definition syncWallet_run ::
  "env \<Rightarrow> post_reply \<Rightarrow> bool \<Rightarrow> bool \<Rightarrow> store \<Rightarrow> sync_outcome \<times> store" where
  "syncWallet_run env reply successcallback errorcallback s =
     (case syncWallet env successcallback errorcallback s of
        (Posted new_checksum, s1) \<Rightarrow>
          (case reply of
             PostFailed e \<Rightarrow> (Returned, syncWallet_post_error errorcallback e s1)
           | PostOk matches \<Rightarrow>
               (Returned,
                if matches then syncWallet_checksum_ok successcallback (syncWallet_posted new_checksum s1)
                else syncWallet_checksum_mismatch errorcallback (syncWallet_posted new_checksum s1)))
      | (Threw e, s1) \<Rightarrow> (Threw e, s1)
      | (Returned, s1) \<Rightarrow> (Returned, s1))"

text \<open>
  The payload an effect hands to the transport: the \<^verbatim>\<open>payload\<close> property of the data
  of a request made with \<^verbatim>\<open>API.securePostCallbacks\<close>, and undefined for every other
  effect. The push is the only operation of the file that puts a ciphertext there.
\<close>

fun uploaded :: "event \<Rightarrow> jsval" where
  "uploaded (SecurePost url data) = js_prop data ''payload''"
| "uploaded e = JUndefined"

subsection \<open>onMessage\<close>

text \<open>
  \<^verbatim>\<open>onMessage(message)\<close>, lines 30 to 63. \<open>message\<close> is the text of the frame (in a
  browser, \<^verbatim>\<open>message.data\<close>); \<open>json_parse\<close> is \<open>None\<close> where \<^verbatim>\<open>JSON.parse\<close> throws.
  The checksums compared with \<^verbatim>\<open>!=\<close> are strings or absent, and on such values
  \<^verbatim>\<open>a != b\<close> is \<open>a \<noteq> b\<close>: two strings are equal when they are the same string, a string
  never equals \<^verbatim>\<open>null\<close> or \<^verbatim>\<open>undefined\<close>, and those two equal each other.
  The handlers that send \<^verbatim>\<open>on_tx\<close> and \<^verbatim>\<open>on_block\<close> once the history has arrived
  run in a later task and are not part of this function.
\<close>

definition onMessage :: "env \<Rightarrow> string \<Rightarrow> store \<Rightarrow> result" where
  "onMessage env message s =
     (case json_parse env message of
        None \<Rightarrow>
          ret (emit (ConsoleLog (''Websocket error: could not parse message data as JSON: '' @ message)) s)
      | Some obj \<Rightarrow>
          if frame_op obj = ''on_change'' then
            (let old_checksum = generatePayloadChecksum env s;
                 new_checksum = frame_checksum obj
             in if last_on_change s \<noteq> new_checksum \<and> old_checksum \<noteq> new_checksum
                then ret (getWallet (s\<lparr>last_on_change := new_checksum\<rparr>))
                else ret s)
          else if frame_op obj = ''utx'' then
            getHistory (sendEvent ''on_tx_received'' None s)
          else if frame_op obj = ''block'' then
            andThen (getHistory s)
              (\<lambda>s. ret (s\<lparr>wallet := map_option (\<lambda>w. w\<lparr>latestBlock := frame_x obj\<rparr>) (wallet s)\<rparr>))
          else if frame_op obj = ''pong'' then ret (emit ClearTimeout s)
          else ret s)"

subsection \<open>pollForSessionGUID\<close>

text \<open>
  \<^verbatim>\<open>MyWallet.pollForSessionGUID(successCallback)\<close>, lines 312 to 336. Each request is
  answered with an object that has a guid, with one that has none, or with an error.
  \<open>replies i\<close> is the answer to the request number \<open>i\<close>. \<open>poll_replies\<close> is the loop
  the handlers \<^verbatim>\<open>success\<close> and \<^verbatim>\<open>error\<close> make: \<^verbatim>\<open>success\<close> sets a timer whose task
  sends the next request with the same two handlers.
\<close>

datatype poll_reply = PollGuid | PollNoGuid | PollFailed

definition poll_request :: "store \<Rightarrow> store" where
  "poll_request s =
     emit (ApiRequest ''GET'' ''wallet/poll-for-session-guid'' [(''format'', JStr ''json'')]) s"

function poll_replies :: "(nat \<Rightarrow> poll_reply) \<Rightarrow> nat \<Rightarrow> store \<Rightarrow> store" where
  "poll_replies replies i s =
     (case replies i of
        PollFailed \<Rightarrow> setIsPolling False s
      | PollGuid \<Rightarrow>
          callback ''successCallback'' []
            (sendEvent ''msg''
               (Some [(''type'', JStr ''success''), (''message'', JStr ''Authorization Successful'')])
               (setIsPolling False s))
      | PollNoGuid \<Rightarrow>
          if counter s < 600
          then poll_replies replies (Suc i) (poll_request (emit (SetTimeout 2000) (incrementCounter s)))
          else setIsPolling False s)"
  by pat_completeness auto
termination
  by (relation "measure (\<lambda>(replies, i, s). 600 - counter s)")
     (auto simp: poll_request_def emit_def incrementCounter_def)

declare poll_replies.simps [simp del]

definition pollForSessionGUID :: "(nat \<Rightarrow> poll_reply) \<Rightarrow> store \<Rightarrow> store" where
  "pollForSessionGUID replies s =
     (if isPolling s then s else poll_replies replies 0 (poll_request (setIsPolling True s)))"

subsection \<open>login\<close>

text \<open>
  \<^verbatim>\<open>MyWallet.login(guid, password, credentials, callbacks)\<close>, lines 187 to 309.
  \<open>callbacks\<close> says which callbacks the caller passed. \<open>twoFactor\<close> is
  \<^verbatim>\<open>credentials.twoFactor\<close>: undefined, null, or an object with a type and a code.
\<close>

record callbacks =
  cb_success :: bool
  cb_otherError :: bool
  cb_needsTwoFactorCode :: bool
  cb_wrongTwoFactorCode :: bool
  cb_authorizationRequired :: bool
  cb_didFetch :: bool
  cb_didDecrypt :: bool
  cb_didBuildHD :: bool

datatype twoFactor = TwoFactorUndefined | TwoFactorNull | TwoFactor jsval jsval

record credentials =
  twoFactor :: twoFactor
  cred_sharedKey :: jsval

text \<open>
  Modelled from the spec: \<^verbatim>\<open>Helpers.isPositiveInteger\<close> and \<^verbatim>\<open>Helpers.isString\<close>
  (\<^verbatim>\<open>helpers.js\<close> is not among the sources). The spec's two-factor descriptor has a
  type that is a positive integer and a code that is a string.
\<close>

fun isPositiveInteger :: "jsval \<Rightarrow> bool" where
  "isPositiveInteger (JNum n) = (0 < n)"
| "isPositiveInteger v = False"

fun isString :: "jsval \<Rightarrow> bool" where
  "isString (JStr s) = True"
| "isString v = False"

text \<open>
  The identifiers \<^verbatim>\<open>otherError\<close> (lines 209, 250, 254 and 271) and
  \<^verbatim>\<open>inputedPassword\<close> (line 304) are bound nowhere: not in \<^verbatim>\<open>login\<close>, whose
  parameters are \<^verbatim>\<open>guid\<close>, \<^verbatim>\<open>password\<close>, \<^verbatim>\<open>credentials\<close> and \<^verbatim>\<open>callbacks\<close>, and
  not at the top of the module. Evaluating one throws a ReferenceError.
\<close>

definition not_defined :: "string \<Rightarrow> jsval" where
  "not_defined name = JErr ''ReferenceError'' (name @ '' is not defined'')"

text \<open>\<^verbatim>\<open>tryToFetchWalletJSON\<close>, lines 201 to 246: the request it sends (line 245).\<close>

definition login_data :: "env \<Rightarrow> credentials \<Rightarrow> jsobj" where
  "login_data env cr =
     [(''format'', JStr ''json''), (''resend_code'', JNull), (''ct'', JNum (clientTime env)),
      (''api_code'', API_CODE env)] @
     (if truthy (cred_sharedKey cr) then [(''sharedKey'', cred_sharedKey cr)] else [])"

definition tryToFetchWalletJSON :: "env \<Rightarrow> string \<Rightarrow> credentials \<Rightarrow> store \<Rightarrow> store" where
  "tryToFetchWalletJSON env g cr s = emit (ApiRequest ''GET'' (''wallet/'' @ g) (login_data env cr)) s"

text \<open>
  \<^verbatim>\<open>tryToFetchWalletWith2FA\<close>, lines 248 to 284: the call, which validates the code and
  sends the request of line 283. A code that is not a string has no \<^verbatim>\<open>length\<close> (both
  comparisons of line 253 are false) and no \<^verbatim>\<open>toUpperCase\<close>.
\<close>

definition tryToFetchWalletWith2FA :: "env \<Rightarrow> string \<Rightarrow> jsval \<Rightarrow> jsval \<Rightarrow> store \<Rightarrow> result" where
  "tryToFetchWalletWith2FA env g type code s =
     (if is_nullish code then throw (not_defined ''otherError'') s
      else if js_length code = Some 0 \<or> (case js_length code of None \<Rightarrow> False | Some n \<Rightarrow> n > 255)
      then throw (not_defined ''otherError'') s
      else
        (let upper = (type = JNum 2 \<or> type = JNum 4 \<or> type = JNum 5) in
         case code of
           JStr c \<Rightarrow>
             (let two_factor_auth_key = (if upper then toUpperCase env c else c) in
              ret (emit (ApiRequest ''POST'' ''wallet''
                     [(''guid'', JStr g), (''payload'', JStr two_factor_auth_key),
                      (''length'', JNum (int (length two_factor_auth_key))),
                      (''method'', JStr ''get-wallet''), (''format'', JStr ''plain''),
                      (''api_code'', API_CODE env)]) s))
         | v \<Rightarrow>
             if upper then throw (JErr ''TypeError'' ''toUpperCase is not a function'') s
             else ret (emit (ApiRequest ''POST'' ''wallet''
                     [(''guid'', JStr g), (''payload'', v), (''length'', JUndefined),
                      (''method'', JStr ''get-wallet''), (''format'', JStr ''plain''),
                      (''api_code'', API_CODE env)]) s)))"

text \<open>
  \<^verbatim>\<open>didFetchWalletJSON\<close>, lines 286 to 296. \<open>payload\<close> and \<open>lang\<close> are
  \<^verbatim>\<open>obj.payload\<close> and \<^verbatim>\<open>obj.language\<close>, \<open>None\<close> when absent.
\<close>

definition didFetchWalletJSON ::
  "env \<Rightarrow> jsval \<Rightarrow> callbacks \<Rightarrow> string option \<Rightarrow> string option \<Rightarrow> store \<Rightarrow> result" where
  "didFetchWalletJSON env pw cbs payload lang s =
     (let s1 = (if payload \<noteq> None \<and> payload \<noteq> Some [] \<and> payload \<noteq> Some ''Not modified''
                then setEncryptedWalletData env payload s else s);
          s2 = (if lang \<noteq> None \<and> lang \<noteq> Some [] \<and> language s1 \<noteq> lang
                then s1\<lparr>language := lang\<rparr> else s1)
      in initializeWallet env pw (cb_success cbs) (cb_otherError cbs) (cb_didDecrypt cbs) s2)"

text \<open>
  The two handlers of the request of line 283. \<open>twoFactor_error\<close> is \<^verbatim>\<open>error\<close>, lines
  277 to 280. \<open>twoFactor_success\<close> is \<^verbatim>\<open>success\<close>, lines 268 to 276; its argument is the
  body of the reply, a string, whose properties \<^verbatim>\<open>payload\<close> and \<^verbatim>\<open>language\<close> are
  undefined. \<open>twoFactor_reply\<close> is \<^verbatim>\<open>.then(success).catch(error)\<close>: \<^verbatim>\<open>error\<close> also
  receives what \<^verbatim>\<open>success\<close> throws.
\<close>

definition twoFactor_error :: "callbacks \<Rightarrow> jsval \<Rightarrow> store \<Rightarrow> result" where
  "twoFactor_error cbs response s =
     (if cb_wrongTwoFactorCode cbs
      then ret (callback ''wrongTwoFactorCode'' [response] (setRestoringWallet False s))
      else throw (JErr ''TypeError'' ''callbacks.wrongTwoFactorCode is not a function'')
             (setRestoringWallet False s))"

definition twoFactor_success :: "env \<Rightarrow> jsval \<Rightarrow> callbacks \<Rightarrow> string option \<Rightarrow> store \<Rightarrow> result" where
  "twoFactor_success env pw cbs data s =
     (if data = None \<or> data = Some [] then throw (not_defined ''otherError'') s
      else didFetchWalletJSON env pw cbs None None
             (if data \<noteq> Some ''Not modified'' then setEncryptedWalletData env data s else s))"

definition twoFactor_reply ::
  "env \<Rightarrow> jsval \<Rightarrow> callbacks \<Rightarrow> jsval + string option \<Rightarrow> store \<Rightarrow> result" where
  "twoFactor_reply env pw cbs reply s =
     (case reply of
        Inl response \<Rightarrow> twoFactor_error cbs response s
      | Inr data \<Rightarrow>
          (case twoFactor_success env pw cbs data s of
             (Some e, s1) \<Rightarrow> twoFactor_error cbs e s1
           | (None, s1) \<Rightarrow> ret s1))"

definition login :: "env \<Rightarrow> string \<Rightarrow> jsval \<Rightarrow> credentials \<Rightarrow> callbacks \<Rightarrow> store \<Rightarrow> result" where
  "login env g pw cr cbs s =
     (if \<not> cb_success cbs then throw (JErr ''AssertionError'' ''Success callback required'') s
      else if \<not> cb_otherError cbs then throw (JErr ''AssertionError'' ''Error callback required'') s
      else
        (case twoFactor cr of
           TwoFactorUndefined \<Rightarrow> throw (JErr ''AssertionError'' ''2FA code must be null or set'') s
         | TwoFactorNull \<Rightarrow> ret (tryToFetchWalletJSON env g cr s)
         | TwoFactor type code \<Rightarrow>
             if \<not> (isPositiveInteger type \<and> isString code)
             then throw (JErr ''AssertionError'' ''false == true'') s
             else if JStr g = ws_guid s \<and> encryptedWalletData s \<noteq> None \<and> encryptedWalletData s \<noteq> Some []
             then throw (not_defined ''inputedPassword'') s
             else tryToFetchWalletWith2FA env g type code s))"

section \<open>address.js\<close>

text \<open>
  An Address: the seven persisted members, the three that are not saved, and
  \<^verbatim>\<open>_temporal_priv\<close> (undefined when the object has no such member).
\<close>

record address =
  m_addr :: jsval
  m_priv :: jsval
  m_label :: jsval
  m_tag :: jsval
  m_created_time :: jsval
  m_created_device_name :: jsval
  m_created_device_version :: jsval
  m_balance :: jsval
  m_totalSent :: jsval
  m_totalReceived :: jsval
  m_temporal_priv :: jsval

text \<open>
  The argument of the constructor is an object or another value. \<^verbatim>\<open>object || {}\<close>
  replaces a falsy value by the empty object; a truthy value that is not an object has
  none of the seven properties either.
\<close>

datatype json = Leaf jsval | Obj jsobj

fun own_properties :: "json \<Rightarrow> jsobj" where
  "own_properties (Obj obj) = obj"
| "own_properties (Leaf v) = []"

text \<open>\<^verbatim>\<open>function Address (object)\<close>, lines 15 to 29.\<close>

definition Address :: "json \<Rightarrow> address" where
  "Address object =
     (let obj = own_properties object in
      \<lparr> m_addr = js_prop obj ''addr'',
        m_priv = js_prop obj ''priv'',
        m_label = js_prop obj ''label'',
        m_tag = (if truthy (js_prop obj ''tag'') then js_prop obj ''tag'' else JNum 0),
        m_created_time = js_prop obj ''created_time'',
        m_created_device_name = js_prop obj ''created_device_name'',
        m_created_device_version = js_prop obj ''created_device_version'',
        m_balance = JNull,
        m_totalSent = JNull,
        m_totalReceived = JNull,
        m_temporal_priv = JUndefined \<rparr>)"

text \<open>The getters \<^verbatim>\<open>isWatchOnly\<close> (line 104) and \<^verbatim>\<open>archived\<close> (line 116).\<close>

definition isWatchOnly :: "address \<Rightarrow> bool" where
  "isWatchOnly a = is_nullish (m_priv a)"

definition archived :: "address \<Rightarrow> bool" where
  "archived a = (m_tag a = JNum 2)"

text \<open>
  The setter of \<^verbatim>\<open>archived\<close>, lines 117 to 129. \<^verbatim>\<open>MyWallet.syncWallet()\<close> is the
  debounced push, which \<^verbatim>\<open>Helpers.asyncOnce\<close> (not among the sources) wraps: the model
  records that it was requested.
\<close>

definition set_archived :: "jsval \<Rightarrow> address \<Rightarrow> store \<Rightarrow> jsval option \<times> address \<times> store" where
  "set_archived v a s =
     (case v of
        JBool b \<Rightarrow>
          if b then (None, a\<lparr>m_tag := JNum 2\<rparr>, emit SyncWalletRequested s)
          else
            (case getHistory s of
               (Some e, s1) \<Rightarrow> (Some e, a\<lparr>m_tag := JNum 0\<rparr>, s1)
             | (None, s1) \<Rightarrow> (None, a\<lparr>m_tag := JNum 0\<rparr>, emit SyncWalletRequested s1))
      | _ \<Rightarrow> (Some (JStr ''Error: address.archived must be a boolean''), a, s))"

text \<open>
  \<^verbatim>\<open>Address.import(key, label)\<close>, lines 147 to 179. The key is classified by
  \<^verbatim>\<open>Helpers\<close> and turned into an address and a private key by \<^verbatim>\<open>bitcoinjs-lib\<close>
  and \<^verbatim>\<open>bs58\<close>; the model takes the outcome of that: a bitcoin address, a key with
  its address and its encoded private part, or neither. \<open>now\<close>, \<open>app_name\<close> and
  \<open>app_version\<close> are \<^verbatim>\<open>Date.now()\<close>, \<^verbatim>\<open>shared.APP_NAME\<close> and \<^verbatim>\<open>shared.APP_VERSION\<close>.
\<close>

datatype import_key = BitcoinAddress string | KeyPair string string | Unsupported

definition import_address ::
  "int \<Rightarrow> jsval \<Rightarrow> jsval \<Rightarrow> import_key \<Rightarrow> jsval \<Rightarrow> jsval + address" where
  "import_address now app_name app_version key label =
     (case key of
        Unsupported \<Rightarrow> Inl (JStr ''Error: address import format not supported'')
      | BitcoinAddress a \<Rightarrow>
          Inr ((Address (Obj [(''addr'', JStr a), (''priv'', JNull), (''created_time'', JNum now),
                  (''created_device_name'', app_name), (''created_device_version'', app_version)]))
               \<lparr>m_label := label, m_tag := JNum 0\<rparr>)
      | KeyPair a p \<Rightarrow>
          Inr ((Address (Obj [(''addr'', JStr a), (''priv'', JStr p), (''created_time'', JNum now),
                  (''created_device_name'', app_name), (''created_device_version'', app_version)]))
               \<lparr>m_label := label, m_tag := JNum 0\<rparr>))"

text \<open>\<^verbatim>\<open>Address.prototype.toJSON\<close>, lines 221 to 232.\<close>

definition toJSON :: "address \<Rightarrow> jsobj" where
  "toJSON a =
     [(''addr'', m_addr a),
      (''priv'', m_priv a),
      (''tag'', m_tag a),
      (''label'', m_label a),
      (''created_time'', m_created_time a),
      (''created_device_name'', m_created_device_name a),
      (''created_device_version'', m_created_device_version a)]"

text \<open>
  \<^verbatim>\<open>Address.reviver\<close>, lines 216 to 219: \<^verbatim>\<open>JSON.parse\<close> calls it with the key
  \<^verbatim>\<open>''\<close> on the whole value, and with the name of a property on each property.
\<close>

datatype revived = Revived address | Kept json

definition reviver :: "string \<Rightarrow> json \<Rightarrow> revived" where
  "reviver k v = (if k = [] then Revived (Address v) else Kept v)"

text \<open>
  What \<^verbatim>\<open>JSON.stringify\<close> writes of an object and \<^verbatim>\<open>JSON.parse\<close> reads back: the
  properties whose value is not undefined.
\<close>

definition written_properties :: "jsobj \<Rightarrow> jsobj" where
  "written_properties obj = filter (\<lambda>(k, v). v \<noteq> JUndefined) obj"

text \<open>The seven persisted members of an Address.\<close>

definition persisted :: "address \<Rightarrow> jsval list" where
  "persisted a =
     [m_addr a, m_priv a, m_tag a, m_label a, m_created_time a, m_created_device_name a,
      m_created_device_version a]"

text \<open>
  Every write of \<^verbatim>\<open>_tag\<close> in \<^verbatim>\<open>address.js\<close> stores a truthy value or the number 0:
  the constructor stores \<^verbatim>\<open>obj.tag || 0\<close>, \<^verbatim>\<open>Address.import\<close> stores 0, the setter of
  \<^verbatim>\<open>archived\<close> stores 2 or 0.
\<close>

definition tag_set :: "address \<Rightarrow> bool" where
  "tag_set a = (truthy (m_tag a) \<or> m_tag a = JNum 0)"

section \<open>Reading a trace\<close>

text \<open>The effects of a run: what it added to the trace.\<close>

definition new_events :: "store \<Rightarrow> store \<Rightarrow> event list" where
  "new_events s s' = drop (length (trace s)) (trace s')"

text \<open>No effect of the list hands a payload to the transport.\<close>

definition no_upload :: "event list \<Rightarrow> bool" where
  "no_upload evs = list_all (\<lambda>e. uploaded e = JUndefined) evs"

text \<open>
  Every request of the list that carries a payload comes after a call of
  \<^verbatim>\<open>WalletCrypto.decryptWallet\<close> on that very payload, and the collaborator decrypts
  that payload with the password \<open>pw\<close>. \<open>seen\<close> are the ciphertexts decryption was
  called on so far.
\<close>

fun checked_uploads :: "env \<Rightarrow> jsval \<Rightarrow> string list \<Rightarrow> event list \<Rightarrow> bool" where
  "checked_uploads env pw seen [] = True"
| "checked_uploads env pw seen (DecryptWallet c # es) = checked_uploads env pw (c # seen) es"
| "checked_uploads env pw seen (SecurePost url data # es) =
     ((js_prop data ''payload'' = JUndefined \<or>
       list_ex (\<lambda>c. js_prop data ''payload'' = JStr c \<and>
                  (case decryptWallet env c pw of Inl e \<Rightarrow> False | Inr obj \<Rightarrow> True)) seen) \<and>
      checked_uploads env pw seen es)"
| "checked_uploads env pw seen (e # es) = checked_uploads env pw seen es"

text \<open>
  The effects of \<^verbatim>\<open>_errorcallback(e)\<close> in the state \<open>s\<close>: two events, the fetch, and
  the caller's error callback if there is one.
\<close>

definition backup_error_events :: "bool \<Rightarrow> jsval \<Rightarrow> store \<Rightarrow> event list" where
  "backup_error_events errorcallback e s =
     [SendEvent ''on_backup_wallet_error'' None,
      SendEvent ''msg''
        (Some [(''type'', JStr ''error''),
               (''message'', JStr (''Error Saving Wallet: '' @ js_toString e))]),
      SecurePost ''wallet'' (getWallet_data s)] @
     (if errorcallback then [Callback ''errorcallback'' [e]] else [])"

text \<open>
  The effects of the polling loop: the request, the \<open>k\<close> retries (each a timer of 2000
  and then the request), and the end of the loop on the last reply.
\<close>

definition poll_request_event :: event where
  "poll_request_event =
     ApiRequest ''GET'' ''wallet/poll-for-session-guid'' [(''format'', JStr ''json'')]"

definition poll_retries :: "nat \<Rightarrow> event list" where
  "poll_retries k = concat (replicate k [SetTimeout 2000, poll_request_event])"

definition poll_finish :: "poll_reply \<Rightarrow> store \<Rightarrow> store" where
  "poll_finish reply s =
     (case reply of
        PollGuid \<Rightarrow>
          s\<lparr>isPolling := False,
            trace := trace s @
              [SendEvent ''msg''
                 (Some [(''type'', JStr ''success''), (''message'', JStr ''Authorization Successful'')]),
               Callback ''successCallback'' []]\<rparr>
      | PollNoGuid \<Rightarrow> s\<lparr>isPolling := False\<rparr>
      | PollFailed \<Rightarrow> s\<lparr>isPolling := False\<rparr>)"

section \<open>Concrete inputs\<close>

text \<open>
  A wallet with a shared key of 36 characters, collaborators that encrypt by prefixing and
  decrypt only what they encrypted, and a fresh session.
\<close>

definition wallet0 :: Wallet where
  "wallet0 =
     \<lparr> guid = JStr ''guid-0'', sharedKey = JStr (replicate 36 (CHR ''k'')),
       isEncryptionConsistent = JBool True, isUpgradedToHD = JBool True,
       activeAddresses = Inr [''1A'', ''1B''], hdwallet = None, latestBlock = JUndefined \<rparr>"

definition frame0 :: frame where
  "frame0 = \<lparr> frame_op = ''on_change'', frame_checksum = Some ''c1'', frame_x = JUndefined \<rparr>"

definition env0 :: env where
  "env0 =
     \<lparr> API_CODE = JStr ''api'', clientTime = 0,
       json_stringify = (\<lambda>w. Inr ''{}''),
       json_parse = (\<lambda>m. if m = ''change'' then Some frame0 else None),
       encryptWallet = (\<lambda>d pw n v. Inr (''enc:'' @ d)),
       decryptWallet = (\<lambda>c pw. if c = ''enc:{}'' then Inr ([], None) else Inl (JStr ''bad'')),
       new_Wallet = (\<lambda>obj. wallet0),
       sha256_hex = (\<lambda>d. ''sum:'' @ d),
       isHex = (\<lambda>c. False),
       toUpperCase = (\<lambda>c. c) \<rparr>"

definition store0 :: store where
  "store0 =
     \<lparr> isInitialized = False, wallet = Some wallet0, last_on_change = None,
       password = JStr ''pw'', ws_guid = JUndefined, encryptedWalletData = None,
       payloadChecksum = None, pbkdf2Iterations = JNum 5000, language = None,
       realAuthType = JUndefined, syncPubKeys = JBool False, isRestoringWallet = False,
       isPolling = False, counter = 0, isLogoutDisabled = False,
       isSynchronizedWithServer = False, trace = [] \<rparr>"

text \<open>The same session while a push is in flight.\<close>

definition pushing0 :: store where
  "pushing0 = store0\<lparr>isLogoutDisabled := True\<rparr>"


text \<open>A session whose wallet has a shared key of 10 characters.\<close>

definition short_key0 :: store where
  "short_key0 = store0\<lparr>wallet := Some (wallet0\<lparr>sharedKey := JStr ''0123456789''\<rparr>)\<rparr>"

text \<open>Collaborators whose decryption always fails.\<close>

definition env_bad :: env where
  "env_bad = env0\<lparr>decryptWallet := (\<lambda>c pw. Inl (JStr ''bad''))\<rparr>"

text \<open>
  Replies of the transport to the polling requests: always an error; and no guid at
  first, then a guid. A session that has polled 598 times already.
\<close>

definition poll_always_failed :: "nat \<Rightarrow> poll_reply" where
  "poll_always_failed i = PollFailed"

definition poll_guid_third :: "nat \<Rightarrow> poll_reply" where
  "poll_guid_third i = (if i < 2 then PollNoGuid else PollGuid)"

definition polled0 :: store where
  "polled0 = store0\<lparr>counter := 598\<rparr>"

text \<open>
  A caller that passes every callback, and credentials with an SMS code that is empty.
\<close>

definition callbacks0 :: callbacks where
  "callbacks0 =
     \<lparr> cb_success = True, cb_otherError = True, cb_needsTwoFactorCode = True,
       cb_wrongTwoFactorCode = True, cb_authorizationRequired = True, cb_didFetch = True,
       cb_didDecrypt = True, cb_didBuildHD = True \<rparr>"

definition empty_code0 :: credentials where
  "empty_code0 = \<lparr> twoFactor = TwoFactor (JNum 4) (JStr []), cred_sharedKey = JUndefined \<rparr>"

text \<open>A watch-only address, as the constructor builds it from a bare bitcoin address.\<close>

definition watch_only0 :: address where
  "watch_only0 = Address (Obj [(''addr'', JStr ''1A''), (''priv'', JNull)])"

section \<open>Properties\<close>

lemmas ws_defs =
  emit_def callback_def sendEvent_def disableLogout_def enableLogout_def
  setIsSynchronizedWithServer_def setRestoringWallet_def setIsPolling_def incrementCounter_def
  unsafeSetPassword_def setPbkdf2Iterations_def setPayloadChecksum_def

subsection \<open>Fetch and logout\<close>

text \<open>
  A reply to \<open>getWallet\<close> that carries a new ciphertext which does not decrypt: the
  ciphertext is stored, decryption is tried once, and \<open>logout\<close> is called with
  \<^verbatim>\<open>force = true\<close>.
\<close>

lemma getWallet_response_decrypt_failed:
  assumes "p \<noteq> []" and "p \<noteq> ''Not modified''" and "decryptWallet env p (password s) = Inl e"
  shows "getWallet_response env success error (Some p) s =
    (None, (let s1 = logout env (JBool True)
                       (emit (DecryptWallet p) (setEncryptedWalletData env (Some p) s))
            in if error then callback ''error'' [] s1 else s1))"
  using assms
  by (simp add: getWallet_response_def decryptAndInitializeWallet_def setEncryptedWalletData_def
      emit_def ret_def Let_def)

text \<open>
  C10. \<open>logout\<close> with a falsy \<open>force\<close> changes nothing while logout is disabled.
  \<open>logout\<close> with \<^verbatim>\<open>force = true\<close> always sends the \<^verbatim>\<open>logging_out\<close> event and the
  logout request, whatever the flag says. In particular, when a fetch made while a push is
  in flight (logout disabled) receives a ciphertext that does not decrypt, the logout
  request is sent all the same, and the flag is still set.
\<close>

theorem logout_force:
  "(\<not> truthy force \<and> isLogoutDisabled s \<longrightarrow> logout env force s = s) \<and>
   logout env (JBool True) s =
     s\<lparr>trace := trace s @
          [SendEvent ''logging_out'' None,
           ApiRequest ''GET'' ''wallet/logout''
             [(''format'', JStr ''plain''), (''api_code'', API_CODE env)]]\<rparr> \<and>
   (isLogoutDisabled s \<and> p \<noteq> [] \<and> p \<noteq> ''Not modified'' \<and>
    decryptWallet env p (password s) = Inl e \<longrightarrow>
      (\<exists>s'. getWallet_response env success error (Some p) s = (None, s') \<and>
            isLogoutDisabled s' \<and>
            ApiRequest ''GET'' ''wallet/logout''
              [(''format'', JStr ''plain''), (''api_code'', API_CODE env)] \<in> set (trace s')))"
proof (intro conjI impI)
  assume "\<not> truthy force \<and> isLogoutDisabled s"
  then show "logout env force s = s"
    by (simp add: logout_def)
next
  show "logout env (JBool True) s =
     s\<lparr>trace := trace s @
          [SendEvent ''logging_out'' None,
           ApiRequest ''GET'' ''wallet/logout''
             [(''format'', JStr ''plain''), (''api_code'', API_CODE env)]]\<rparr>"
    by (simp add: logout_def ws_defs)
next
  assume a: "isLogoutDisabled s \<and> p \<noteq> [] \<and> p \<noteq> ''Not modified'' \<and>
    decryptWallet env p (password s) = Inl e"
  then have "getWallet_response env success error (Some p) s =
    (None, (let s1 = logout env (JBool True)
                       (emit (DecryptWallet p) (setEncryptedWalletData env (Some p) s))
            in if error then callback ''error'' [] s1 else s1))"
    by (simp add: getWallet_response_decrypt_failed)
  with a show "\<exists>s'. getWallet_response env success error (Some p) s = (None, s') \<and>
            isLogoutDisabled s' \<and>
            ApiRequest ''GET'' ''wallet/logout''
              [(''format'', JStr ''plain''), (''api_code'', API_CODE env)] \<in> set (trace s')"
    by (simp add: logout_def ws_defs setEncryptedWalletData_def Let_def)
qed

theorem logout_force_witness:
  "\<not> truthy JUndefined \<and> isLogoutDisabled pushing0 \<and>
   decryptWallet env0 ''junk'' (password pushing0) = Inl (JStr ''bad'') \<and>
   logout env0 JUndefined pushing0 = pushing0 \<and>
   (\<exists>s'. getWallet_response env0 False False (Some ''junk'') pushing0 = (None, s') \<and>
         isLogoutDisabled s' \<and>
         ApiRequest ''GET'' ''wallet/logout''
           [(''format'', JStr ''plain''), (''api_code'', API_CODE env0)] \<in> set (trace s'))"
proof -
  have h1: "\<not> truthy JUndefined \<and> isLogoutDisabled pushing0"
    by (simp add: pushing0_def store0_def)
  have h2: "decryptWallet env0 ''junk'' (password pushing0) = Inl (JStr ''bad'')"
    by (simp add: env0_def)
  have h3: "''junk'' \<noteq> [] \<and> ''junk'' \<noteq> ''Not modified''"
    by simp
  from h1 h2 h3 logout_force [of JUndefined pushing0 env0 "''junk''" "JStr ''bad''" False False]
  show ?thesis
    by blast
qed

text \<open>
  C5. A reply to a fetch that has no payload, an empty one, or the text
  \<^verbatim>\<open>Not modified\<close> changes nothing: the success callback is called if there is one,
  and that is all. A reply with a new ciphertext that does not decrypt ends in a forced
  logout: the effects are the one decryption call, the \<^verbatim>\<open>logging_out\<close> event, the
  logout request, and the error callback if there is one. No further fetch is sent.
\<close>

theorem getWallet_response_outcomes:
  "(payload = None \<or> payload = Some [] \<or> payload = Some ''Not modified'' \<longrightarrow>
      getWallet_response env success error payload s =
        (None, if success then s\<lparr>trace := trace s @ [Callback ''success'' []]\<rparr> else s)) \<and>
   (p \<noteq> [] \<and> p \<noteq> ''Not modified'' \<and> decryptWallet env p (password s) = Inl e \<longrightarrow>
      (\<exists>s'. getWallet_response env success error (Some p) s = (None, s') \<and>
            trace s' = trace s @
              [DecryptWallet p, SendEvent ''logging_out'' None,
               ApiRequest ''GET'' ''wallet/logout''
                 [(''format'', JStr ''plain''), (''api_code'', API_CODE env)]] @
              (if error then [Callback ''error'' []] else [])))"
proof (intro conjI impI)
  assume "payload = None \<or> payload = Some [] \<or> payload = Some ''Not modified''"
  then show "getWallet_response env success error payload s =
        (None, if success then s\<lparr>trace := trace s @ [Callback ''success'' []]\<rparr> else s)"
    by (auto simp: getWallet_response_def ret_def ws_defs)
next
  assume a: "p \<noteq> [] \<and> p \<noteq> ''Not modified'' \<and> decryptWallet env p (password s) = Inl e"
  then have "getWallet_response env success error (Some p) s =
    (None, (let s1 = logout env (JBool True)
                       (emit (DecryptWallet p) (setEncryptedWalletData env (Some p) s))
            in if error then callback ''error'' [] s1 else s1))"
    by (simp add: getWallet_response_decrypt_failed)
  with a show "\<exists>s'. getWallet_response env success error (Some p) s = (None, s') \<and>
            trace s' = trace s @
              [DecryptWallet p, SendEvent ''logging_out'' None,
               ApiRequest ''GET'' ''wallet/logout''
                 [(''format'', JStr ''plain''), (''api_code'', API_CODE env)]] @
              (if error then [Callback ''error'' []] else [])"
    by (simp add: logout_def ws_defs setEncryptedWalletData_def Let_def)
qed

theorem getWallet_response_outcomes_witness:
  "decryptWallet env0 ''junk'' (password store0) = Inl (JStr ''bad'') \<and>
   getWallet_response env0 True True None store0 =
     (None, store0\<lparr>trace := trace store0 @ [Callback ''success'' []]\<rparr>) \<and>
   (\<exists>s'. getWallet_response env0 True True (Some ''junk'') store0 = (None, s') \<and>
         trace s' = trace store0 @
           [DecryptWallet ''junk'', SendEvent ''logging_out'' None,
            ApiRequest ''GET'' ''wallet/logout''
              [(''format'', JStr ''plain''), (''api_code'', API_CODE env0)]] @
           [Callback ''error'' []])"
proof -
  have h1: "decryptWallet env0 ''junk'' (password store0) = Inl (JStr ''bad'')"
    by (simp add: env0_def)
  have h2: "''junk'' \<noteq> [] \<and> ''junk'' \<noteq> ''Not modified''"
    by simp
  from h1 h2 getWallet_response_outcomes [of None env0 True True store0 "''junk''" "JStr ''bad''"]
  show ?thesis
    by simp
qed

subsection \<open>initializeWallet\<close>



subsection \<open>The suppression rule\<close>

text \<open>
  C4. A frame whose \<^verbatim>\<open>op\<close> is \<^verbatim>\<open>on_change\<close> and which carries the checksum \<open>c\<close>
  triggers a fetch exactly when \<open>c\<close> differs from the last checksum acted upon and from
  the checksum of the ciphertext stored locally. When it does, \<open>c\<close> becomes the last
  checksum acted upon and one fetch request is sent; when it does not, nothing changes.
\<close>

theorem onMessage_on_change:
  assumes "json_parse env message = Some obj"
    and "frame_op obj = ''on_change''"
    and "frame_checksum obj = Some c"
  shows "onMessage env message s =
     (None,
      if last_on_change s \<noteq> Some c \<and> generatePayloadChecksum env s \<noteq> Some c
      then s\<lparr>last_on_change := Some c,
             trace := trace s @ [SecurePost ''wallet'' (getWallet_data s)]\<rparr>
      else s)"
  using assms
  by (simp add: onMessage_def getWallet_def getWallet_data_def ret_def ws_defs Let_def)

theorem onMessage_on_change_witness:
  "json_parse env0 ''change'' = Some frame0 \<and> frame_op frame0 = ''on_change'' \<and>
   frame_checksum frame0 = Some ''c1'' \<and>
   last_on_change store0 \<noteq> Some ''c1'' \<and> generatePayloadChecksum env0 store0 \<noteq> Some ''c1'' \<and>
   onMessage env0 ''change'' store0 =
     (None, store0\<lparr>last_on_change := Some ''c1'',
                   trace := trace store0 @ [SecurePost ''wallet'' (getWallet_data store0)]\<rparr>)"
proof -
  have h1: "json_parse env0 ''change'' = Some frame0"
    by (simp add: env0_def)
  have h2: "frame_op frame0 = ''on_change''" and h3: "frame_checksum frame0 = Some ''c1''"
    by (simp_all add: frame0_def)
  have h4: "last_on_change store0 \<noteq> Some ''c1'' \<and> generatePayloadChecksum env0 store0 \<noteq> Some ''c1''"
    by (simp add: store0_def generatePayloadChecksum_def)
  from h1 h2 h3 h4 onMessage_on_change [OF h1 h2 h3, of store0]
  show ?thesis
    by simp
qed

subsection \<open>The push\<close>

lemma sharedKey_unset_iff:
  "sharedKey_unset w \<longleftrightarrow> (\<forall>k. sharedKey w = JStr k \<longrightarrow> length k \<noteq> 36)"
  by (cases "sharedKey w") (auto simp: sharedKey_unset_def)

text \<open>
  C1. When the shared key of the wallet is not a string of exactly 36 characters (it is
  absent, empty, or of another length), or the wallet's
  \<^verbatim>\<open>isEncryptionConsistent\<close> is \<^verbatim>\<open>false\<close>, the push throws at once. With the flag
  false it panics: it logs, leaves the page and throws \<^verbatim>\<open>Save disabled.\<close>; otherwise
  it throws \<^verbatim>\<open>Cannot backup wallet now. Shared key is not set\<close> and the state is
  untouched. Nothing is serialized, encrypted, decrypted or sent, logout is not disabled,
  and no handler runs afterwards.
\<close>

theorem syncWallet_preconditions:
  assumes "wallet s = Some w"
    and "(\<forall>k. sharedKey w = JStr k \<longrightarrow> length k \<noteq> 36) \<or> isEncryptionConsistent w = JBool False"
  shows "syncWallet env successcallback errorcallback s =
     (if isEncryptionConsistent w = JBool False
      then (Threw (JStr ''Save disabled.''),
            s\<lparr>trace := trace s @
                 [ConsoleLog ''Panic The wallet was not fully enc/decrypted'',
                  LocationReplace ''/'']\<rparr>)
      else (Threw (JStr ''Cannot backup wallet now. Shared key is not set''), s)) \<and>
     syncWallet_run env reply successcallback errorcallback s =
       syncWallet env successcallback errorcallback s"
  using assms
  by (auto simp: syncWallet_def syncWallet_run_def panic_def ws_defs sharedKey_unset_iff)

theorem syncWallet_preconditions_witness:
  "wallet short_key0 = Some (wallet0\<lparr>sharedKey := JStr ''0123456789''\<rparr>) \<and>
   sharedKey (wallet0\<lparr>sharedKey := JStr ''0123456789''\<rparr>) = JStr ''0123456789'' \<and>
   length ''0123456789'' = (10::nat) \<and>
   syncWallet env0 True True short_key0 =
     (Threw (JStr ''Cannot backup wallet now. Shared key is not set''), short_key0) \<and>
   syncWallet_run env0 (PostOk True) True True short_key0 =
     (Threw (JStr ''Cannot backup wallet now. Shared key is not set''), short_key0)"
proof -
  have h1: "wallet short_key0 = Some (wallet0\<lparr>sharedKey := JStr ''0123456789''\<rparr>)"
    by (simp add: short_key0_def)
  have h2: "\<forall>k. sharedKey (wallet0\<lparr>sharedKey := JStr ''0123456789''\<rparr>) = JStr k \<longrightarrow> length k \<noteq> 36"
    by auto
  have h3: "isEncryptionConsistent (wallet0\<lparr>sharedKey := JStr ''0123456789''\<rparr>) \<noteq> JBool False"
    by (simp add: wallet0_def)
  from h1 h2 h3
    syncWallet_preconditions [OF h1 disjI1 [OF h2], of env0 True True "PostOk True"]
  show ?thesis
    by simp
qed

text \<open>What \<^verbatim>\<open>_errorcallback\<close> and the \<^verbatim>\<open>catch\<close> blocks do to the state.\<close>

lemma payload_getWallet_data [simp]: "js_prop (getWallet_data s) ''payload'' = JUndefined"
  by (simp add: getWallet_data_def js_prop_def split: option.splits)

lemma no_upload_backup_error [simp]: "no_upload (backup_error_events ecb e s)"
  by (simp add: no_upload_def backup_error_events_def)

lemma backup_error_events_update [simp]:
  "backup_error_events ecb e (s\<lparr>isLogoutDisabled := b\<rparr>) = backup_error_events ecb e s"
  "backup_error_events ecb e (s\<lparr>trace := t\<rparr>) = backup_error_events ecb e s"
  by (simp_all add: backup_error_events_def getWallet_data_def)

lemma syncWallet_errorcallback_eq:
  "syncWallet_errorcallback ecb e s = s\<lparr>trace := trace s @ backup_error_events ecb e s\<rparr>"
  by (simp add: syncWallet_errorcallback_def getWallet_def getWallet_data_def ws_defs Let_def
      backup_error_events_def)

lemma syncWallet_catch_eq:
  "syncWallet_catch ecb e s =
     (Returned, s\<lparr>trace := trace s @ backup_error_events ecb e s, isLogoutDisabled := False\<rparr>)"
  by (simp add: syncWallet_catch_def syncWallet_errorcallback_eq enableLogout_def)

text \<open>Lists of effects without uploads.\<close>

lemma no_upload_simps [simp]:
  "no_upload []"
  "no_upload (e # es) = (uploaded e = JUndefined \<and> no_upload es)"
  "no_upload (xs @ ys) = (no_upload xs \<and> no_upload ys)"
  by (simp_all add: no_upload_def)

lemma checked_no_upload: "no_upload evs \<Longrightarrow> checked_uploads env pw seen evs"
  by (induction env pw seen evs rule: checked_uploads.induct) (auto simp: no_upload_def)

lemma checked_backup_error [simp]:
  "checked_uploads env pw seen (backup_error_events ecb e s)"
  by (simp add: checked_no_upload)




text \<open>The handlers that run once the request is with the transport.\<close>

lemma syncWallet_run_posted:
  assumes "syncWallet env scb ecb s = (Posted c, s1)"
  shows "syncWallet_run env reply scb ecb s =
     (Returned,
      case reply of
        PostFailed e \<Rightarrow>
          s1\<lparr>trace := trace s1 @ backup_error_events ecb e s1, isLogoutDisabled := False\<rparr>
      | PostOk matches \<Rightarrow>
          if matches
          then s1\<lparr>trace := trace s1 @
                    [CheckWalletChecksum c, SendEvent ''on_backup_wallet_success'' None] @
                    (if scb then [Callback ''successcallback'' []] else []),
                  isSynchronizedWithServer := True, isLogoutDisabled := False\<rparr>
          else s1\<lparr>trace := trace s1 @ CheckWalletChecksum c #
                    backup_error_events ecb (JStr ''Checksum Did Not Match Expected Value'') s1,
                  isLogoutDisabled := False\<rparr>)"
  by (cases reply)
     (simp_all add: syncWallet_run_def assms syncWallet_post_error_def
       syncWallet_posted_def syncWallet_checksum_ok_def syncWallet_checksum_mismatch_def
       syncWallet_errorcallback_eq ws_defs Let_def)

text \<open>Every stage only adds to the trace.\<close>

lemma syncWallet_decrypted_trace:
  "syncWallet_decrypted env ecb w crypted s = (out, s1) \<Longrightarrow> prefix (trace s) (trace s1)"
  by (auto simp: syncWallet_decrypted_def syncWallet_catch_eq setEncryptedWalletData_def
      ws_defs Let_def split: sum.splits if_splits)

lemma syncWallet_try_trace:
  "syncWallet_try env ecb w s = (out, s1) \<Longrightarrow> prefix (trace s) (trace s1)"
  by (auto simp: syncWallet_try_def syncWallet_catch_eq ws_defs Let_def
      split: sum.splits if_splits dest!: syncWallet_decrypted_trace dest: append_prefixD)

lemma syncWallet_trace:
  "syncWallet env scb ecb s = (out, s1) \<Longrightarrow> prefix (trace s) (trace s1)"
  by (auto simp: syncWallet_def panic_def ws_defs
      split: option.splits if_splits dest!: syncWallet_try_trace)

lemma syncWallet_run_trace:
  "prefix (trace s) (trace (snd (syncWallet_run env reply scb ecb s)))"
proof (cases "syncWallet env scb ecb s")
  case (Pair out s1)
  then have ext: "prefix (trace s) (trace s1)"
    by (rule syncWallet_trace)
  show ?thesis
  proof (cases out)
    case (Posted c)
    with Pair have "syncWallet env scb ecb s = (Posted c, s1)"
      by simp
    with ext show ?thesis
      by (simp add: syncWallet_run_posted split: post_reply.splits)
  qed (use Pair ext in \<open>simp_all add: syncWallet_run_def\<close>)
qed

text \<open>The effects of a whole push respect the self-check, path by path.\<close>

lemma syncWallet_run_checked:
  "checked_uploads env (password s) []
     (new_events s (snd (syncWallet_run env reply scb ecb s)))"
proof (cases "wallet s")
  case None
  then show ?thesis
    by (simp add: syncWallet_run_def syncWallet_def new_events_def)
next
  case w: (Some w)
  show ?thesis
  proof (cases "isEncryptionConsistent w = JBool False \<or> sharedKey_unset w")
    case True
    with w show ?thesis
      by (auto simp: syncWallet_run_def syncWallet_def panic_def new_events_def ws_defs)
  next
    case False
    with w have sync: "syncWallet env scb ecb s = syncWallet_try env ecb w (disableLogout s)"
      by (simp add: syncWallet_def)
    show ?thesis
    proof (cases "json_stringify env w")
      case (Inl e)
      then show ?thesis
        by (simp add: syncWallet_run_def sync syncWallet_try_def syncWallet_catch_eq
            new_events_def ws_defs)
    next
      case data: (Inr data)
      show ?thesis
      proof (cases "encryptWallet env data (password s) (pbkdf2Iterations s)
                      (if truthy (isUpgradedToHD w) then 3 else 2)")
        case (Inl e)
        with data show ?thesis
          by (simp add: syncWallet_run_def sync syncWallet_try_def syncWallet_catch_eq
              new_events_def ws_defs)
      next
        case crypted: (Inr crypted)
        show ?thesis
        proof (cases "crypted = []")
          case True
          with data crypted show ?thesis
            by (simp add: syncWallet_run_def sync syncWallet_try_def syncWallet_catch_eq
                new_events_def ws_defs)
        next
          case nonempty: False
          show ?thesis
          proof (cases "decryptWallet env crypted (password s)")
            case (Inl e)
            with data crypted nonempty show ?thesis
              by (simp add: syncWallet_run_def sync syncWallet_try_def syncWallet_catch_eq
                  new_events_def ws_defs)
          next
            case (Inr obj)
            with data crypted nonempty show ?thesis
              by (simp add: syncWallet_run_def sync syncWallet_try_def syncWallet_catch_eq
                  syncWallet_decrypted_def setEncryptedWalletData_def js_prop_def
                  syncWallet_posted_def syncWallet_checksum_ok_def
                  syncWallet_checksum_mismatch_def syncWallet_post_error_def
                  syncWallet_errorcallback_eq
                  new_events_def ws_defs Let_def split: sum.splits post_reply.splits)
          qed
        qed
      qed
    qed
  qed
qed

text \<open>
  A push that succeeds, on the concrete session: the ciphertext is uploaded once, right
  after the event that announces the backup, and the decryption call on it comes before.
\<close>

lemma syncWallet_run_example:
  "new_events store0 (snd (syncWallet_run env0 (PostOk True) True True store0)) =
     [JsonStringify, EncryptWallet ''{}'', DecryptWallet ''enc:{}'',
      SendEvent ''on_backup_wallet_start'' None,
      SecurePost ''wallet''
        [(''length'', JNum 6), (''payload'', JStr ''enc:{}''),
         (''checksum'', JStr ''sum:enc:{}''), (''method'', JStr ''update''),
         (''format'', JStr ''plain''), (''language'', JNull)],
      CheckWalletChecksum (Some ''sum:enc:{}''),
      SendEvent ''on_backup_wallet_success'' None,
      Callback ''successcallback'' []]"
  by (simp add: syncWallet_run_def syncWallet_def syncWallet_try_def syncWallet_decrypted_def
      syncWallet_posted_def syncWallet_checksum_ok_def sharedKey_unset_def
      setEncryptedWalletData_def new_events_def opt_str_def
      store0_def wallet0_def env0_def ws_defs Let_def)

text \<open>The push when the self-check decryption fails, whatever the preconditions say.\<close>

lemma syncWallet_selfcheck_failed:
  assumes "wallet s = Some w"
    and "json_stringify env w = Inr data"
    and "encryptWallet env data (password s) (pbkdf2Iterations s)
           (if truthy (isUpgradedToHD w) then 3 else 2) = Inr crypted"
    and "decryptWallet env crypted (password s) = Inl e"
  shows "syncWallet_run env reply scb ecb s =
     (if isEncryptionConsistent w = JBool False
      then panic ''The wallet was not fully enc/decrypted'' s
      else if sharedKey_unset w
      then (Threw (JStr ''Cannot backup wallet now. Shared key is not set''), s)
      else if crypted = []
      then (Returned,
            s\<lparr>trace := trace s @ [JsonStringify, EncryptWallet data] @
                 backup_error_events ecb (JStr ''Error encrypting the JSON output'') s,
              isLogoutDisabled := False\<rparr>)
      else (Returned,
            s\<lparr>trace := trace s @
                 [JsonStringify, EncryptWallet data, DecryptWallet crypted,
                  ConsoleLog (js_toString e)] @
                 backup_error_events ecb (JStr ''Decryption failed'') s,
              isLogoutDisabled := False\<rparr>))"
  using assms
  by (simp add: syncWallet_run_def syncWallet_def syncWallet_try_def syncWallet_catch_eq
      panic_def ws_defs)

text \<open>
  C2. In every run of the push, the trace only grows, and every request that carries a
  payload comes after the decryption call on that very payload, which the collaborator
  decrypts with the session's password: the ciphertext is uploaded only after the
  self-check has succeeded. When the self-check of the fresh ciphertext fails, no effect
  of the run carries a payload and the stored ciphertext and its checksum are as before;
  past the preconditions the run is exactly the aborted one: the console line, the two
  error events, the re-fetch, the caller's error callback with \<^verbatim>\<open>Decryption failed\<close>,
  and logout enabled again.
\<close>

theorem syncWallet_upload_after_selfcheck:
  assumes "syncWallet_run env reply scb ecb s = (out, s')"
  shows "prefix (trace s) (trace s') \<and>
     checked_uploads env (password s) [] (new_events s s') \<and>
     (wallet s = Some w \<and> json_stringify env w = Inr data \<and>
      encryptWallet env data (password s) (pbkdf2Iterations s)
        (if truthy (isUpgradedToHD w) then 3 else 2) = Inr crypted \<and>
      decryptWallet env crypted (password s) = Inl e \<longrightarrow>
        no_upload (new_events s s') \<and>
        encryptedWalletData s' = encryptedWalletData s \<and>
        payloadChecksum s' = payloadChecksum s \<and>
        (isEncryptionConsistent w \<noteq> JBool False \<and> \<not> sharedKey_unset w \<and> crypted \<noteq> [] \<longrightarrow>
           out = Returned \<and>
           s' = s\<lparr>trace := trace s @
                     [JsonStringify, EncryptWallet data, DecryptWallet crypted,
                      ConsoleLog (js_toString e)] @
                     backup_error_events ecb (JStr ''Decryption failed'') s,
                   isLogoutDisabled := False\<rparr>))"
proof (intro conjI impI)
  from assms have s': "s' = snd (syncWallet_run env reply scb ecb s)"
    by simp
  show "prefix (trace s) (trace s')"
    unfolding s' by (rule syncWallet_run_trace)
  show "checked_uploads env (password s) [] (new_events s s')"
    unfolding s' by (rule syncWallet_run_checked)
next
  assume a: "wallet s = Some w \<and> json_stringify env w = Inr data \<and>
      encryptWallet env data (password s) (pbkdf2Iterations s)
        (if truthy (isUpgradedToHD w) then 3 else 2) = Inr crypted \<and>
      decryptWallet env crypted (password s) = Inl e"
  then have run: "(out, s') =
     (if isEncryptionConsistent w = JBool False
      then panic ''The wallet was not fully enc/decrypted'' s
      else if sharedKey_unset w
      then (Threw (JStr ''Cannot backup wallet now. Shared key is not set''), s)
      else if crypted = []
      then (Returned,
            s\<lparr>trace := trace s @ [JsonStringify, EncryptWallet data] @
                 backup_error_events ecb (JStr ''Error encrypting the JSON output'') s,
              isLogoutDisabled := False\<rparr>)
      else (Returned,
            s\<lparr>trace := trace s @
                 [JsonStringify, EncryptWallet data, DecryptWallet crypted,
                  ConsoleLog (js_toString e)] @
                 backup_error_events ecb (JStr ''Decryption failed'') s,
              isLogoutDisabled := False\<rparr>))"
    using syncWallet_selfcheck_failed [of s w env data crypted e reply scb ecb] assms
    by simp
  from run show "no_upload (new_events s s')"
    by (auto simp: new_events_def panic_def ws_defs split: if_splits)
  from run show "encryptedWalletData s' = encryptedWalletData s"
    by (auto simp: panic_def ws_defs split: if_splits)
  from run show "payloadChecksum s' = payloadChecksum s"
    by (auto simp: panic_def ws_defs split: if_splits)
  {
    assume "isEncryptionConsistent w \<noteq> JBool False \<and> \<not> sharedKey_unset w \<and> crypted \<noteq> []"
    with run show "out = Returned"
      by simp
  }
  {
    assume "isEncryptionConsistent w \<noteq> JBool False \<and> \<not> sharedKey_unset w \<and> crypted \<noteq> []"
    with run show "s' = s\<lparr>trace := trace s @
                     [JsonStringify, EncryptWallet data, DecryptWallet crypted,
                      ConsoleLog (js_toString e)] @
                     backup_error_events ecb (JStr ''Decryption failed'') s,
                   isLogoutDisabled := False\<rparr>"
      by simp
  }
qed

theorem syncWallet_upload_after_selfcheck_witness:
  "wallet store0 = Some wallet0 \<and> json_stringify env_bad wallet0 = Inr ''{}'' \<and>
   encryptWallet env_bad ''{}'' (password store0) (pbkdf2Iterations store0)
     (if truthy (isUpgradedToHD wallet0) then 3 else 2) = Inr ''enc:{}'' \<and>
   decryptWallet env_bad ''enc:{}'' (password store0) = Inl (JStr ''bad'') \<and>
   isEncryptionConsistent wallet0 \<noteq> JBool False \<and>
   checked_uploads env_bad (password store0) []
     (new_events store0 (snd (syncWallet_run env_bad (PostOk True) True True store0))) \<and>
   no_upload (new_events store0 (snd (syncWallet_run env_bad (PostOk True) True True store0))) \<and>
   fst (syncWallet_run env_bad (PostOk True) True True store0) = Returned \<and>
   snd (syncWallet_run env_bad (PostOk True) True True store0) =
     store0\<lparr>trace := trace store0 @
               [JsonStringify, EncryptWallet ''{}'', DecryptWallet ''enc:{}'',
                ConsoleLog (js_toString (JStr ''bad''))] @
               backup_error_events True (JStr ''Decryption failed'') store0,
             isLogoutDisabled := False\<rparr>"
proof -
  have h1: "wallet store0 = Some wallet0"
    by (simp add: store0_def)
  have h2: "json_stringify env_bad wallet0 = Inr ''{}''"
    by (simp add: env_bad_def env0_def)
  have h3: "encryptWallet env_bad ''{}'' (password store0) (pbkdf2Iterations store0)
     (if truthy (isUpgradedToHD wallet0) then 3 else 2) = Inr ''enc:{}''"
    by (simp add: env_bad_def env0_def)
  have h4: "decryptWallet env_bad ''enc:{}'' (password store0) = Inl (JStr ''bad'')"
    by (simp add: env_bad_def)
  have h5: "isEncryptionConsistent wallet0 \<noteq> JBool False"
    by (simp add: wallet0_def)
  have h6: "\<not> sharedKey_unset wallet0"
    by (simp add: sharedKey_unset_def wallet0_def)
  have h7: "''enc:{}'' \<noteq> []"
    by simp
  have run: "syncWallet_run env_bad (PostOk True) True True store0 =
     (fst (syncWallet_run env_bad (PostOk True) True True store0),
      snd (syncWallet_run env_bad (PostOk True) True True store0))"
    by simp
  from h1 h2 h3 h4 h5 h6 h7
    syncWallet_upload_after_selfcheck [OF run, of wallet0 "''{}''" "''enc:{}''" "JStr ''bad''"]
  show ?thesis
    by blast
qed



subsection \<open>Addresses\<close>

text \<open>The invariant of \<^verbatim>\<open>_tag\<close>: each writer establishes it.\<close>

lemma tag_set_Address: "tag_set (Address object)"
  by (simp add: tag_set_def Address_def Let_def)

lemma tag_set_import: "import_address now app_name app_version key label = Inr a \<Longrightarrow> tag_set a"
  by (auto simp: import_address_def tag_set_def split: import_key.splits)

lemma tag_set_archived: "set_archived v a s = (r, a', s') \<Longrightarrow> tag_set a \<Longrightarrow> tag_set a'"
  by (auto simp: set_archived_def tag_set_def split: jsval.splits if_splits prod.splits option.splits)

text \<open>Dropping the undefined properties of an object changes no property read.\<close>

lemma js_prop_written:
  "distinct (map fst obj) \<Longrightarrow> js_prop (written_properties obj) k = js_prop obj k"
proof (induction obj)
  case Nil
  then show ?case
    by (simp add: written_properties_def)
next
  case (Cons kv obj)
  obtain k' v where kv: "kv = (k', v)"
    by (cases kv)
  from Cons.prems kv have fresh: "map_of obj k' = None"
    by (simp add: map_of_eq_None_iff)
  from Cons have ih: "js_prop (written_properties obj) k = js_prop obj k"
    by simp
  show ?case
  proof (cases "k = k'")
    case True
    with fresh ih kv show ?thesis
      by (auto simp: written_properties_def js_prop_def)
  next
    case False
    with ih kv show ?thesis
      by (auto simp: written_properties_def js_prop_def)
  qed
qed

text \<open>
  C9. \<open>toJSON\<close> of an Address is an object with exactly the seven persisted properties,
  in the order of the source, holding the seven persisted members. Building an Address
  from that object, with the constructor or with the reviver at the root key, gives back
  the same seven members; so does building it from what \<^verbatim>\<open>JSON.stringify\<close> writes of
  the object (the properties that are not undefined). A watch-only address stays
  watch-only: a null or undefined \<^verbatim>\<open>priv\<close> comes back as it was. The Address is any
  one whose \<^verbatim>\<open>_tag\<close> was written by \<^verbatim>\<open>address.js\<close> (\<open>tag_set\<close>).
\<close>

theorem toJSON_roundtrip:
  assumes "tag_set a"
  shows "map fst (toJSON a) =
           [''addr'', ''priv'', ''tag'', ''label'', ''created_time'', ''created_device_name'',
            ''created_device_version''] \<and>
         map snd (toJSON a) = persisted a \<and>
         reviver [] (Obj (toJSON a)) = Revived (Address (Obj (toJSON a))) \<and>
         persisted (Address (Obj (toJSON a))) = persisted a \<and>
         persisted (Address (Obj (written_properties (toJSON a)))) = persisted a \<and>
         isWatchOnly (Address (Obj (toJSON a))) = isWatchOnly a \<and>
         isWatchOnly (Address (Obj (written_properties (toJSON a)))) = isWatchOnly a"
proof -
  have keys: "distinct (map fst (toJSON a))"
    by (simp add: toJSON_def)
  have direct: "persisted (Address (Obj (toJSON a))) = persisted a"
    using assms by (auto simp: persisted_def Address_def toJSON_def js_prop_def tag_set_def Let_def)
  have written: "persisted (Address (Obj (written_properties (toJSON a)))) =
      persisted (Address (Obj (toJSON a)))"
    by (simp add: persisted_def Address_def Let_def js_prop_written [OF keys])
  have watch: "isWatchOnly (Address (Obj (toJSON a))) = isWatchOnly a"
    by (simp add: isWatchOnly_def Address_def toJSON_def js_prop_def Let_def)
  have watch_written: "isWatchOnly (Address (Obj (written_properties (toJSON a)))) =
      isWatchOnly (Address (Obj (toJSON a)))"
    by (simp add: isWatchOnly_def Address_def Let_def js_prop_written [OF keys])
  show ?thesis
    using direct written watch watch_written
    by (simp add: toJSON_def persisted_def reviver_def)
qed

theorem toJSON_roundtrip_witness:
  "tag_set watch_only0 \<and> isWatchOnly watch_only0 \<and>
   map fst (toJSON watch_only0) =
     [''addr'', ''priv'', ''tag'', ''label'', ''created_time'', ''created_device_name'',
      ''created_device_version''] \<and>
   persisted (Address (Obj (toJSON watch_only0))) = persisted watch_only0 \<and>
   persisted (Address (Obj (written_properties (toJSON watch_only0)))) = persisted watch_only0 \<and>
   isWatchOnly (Address (Obj (written_properties (toJSON watch_only0))))"
proof -
  have h: "tag_set watch_only0"
    by (simp add: watch_only0_def tag_set_Address)
  have w: "isWatchOnly watch_only0"
    by (simp add: watch_only0_def isWatchOnly_def Address_def js_prop_def Let_def)
  from h w toJSON_roundtrip [OF h]
  show ?thesis
    by simp
qed

subsection \<open>Polling for the session guid\<close>

lemma poll_retries_Suc: "poll_retries (Suc k) = [SetTimeout 2000, poll_request_event] @ poll_retries k"
  by (simp add: poll_retries_def)

text \<open>
  The loop, from the reply to request \<open>i\<close> on: \<open>k\<close> replies without a guid, each
  answered by a retry, and then the reply that ends it.
\<close>

lemma poll_replies_shape:
  "\<exists>k. k \<le> 600 - counter s \<and>
       (\<forall>j. j < k \<longrightarrow> replies (i + j) = PollNoGuid) \<and>
       (replies (i + k) = PollNoGuid \<longrightarrow> 600 \<le> counter s + k) \<and>
       poll_replies replies i s =
         poll_finish (replies (i + k))
           (s\<lparr>counter := counter s + k, trace := trace s @ poll_retries k\<rparr>)"
proof (induction replies i s rule: poll_replies.induct)
  case (1 replies i s)
  show ?case
  proof (cases "replies i = PollNoGuid \<and> counter s < 600")
    case False
    then have "poll_replies replies i s = poll_finish (replies i) s"
      by (cases "replies i")
         (simp_all add: poll_replies.simps [of replies i s] poll_finish_def ws_defs)
    with False have "0 \<le> 600 - counter s \<and>
       (\<forall>j. j < (0::nat) \<longrightarrow> replies (i + j) = PollNoGuid) \<and>
       (replies (i + 0) = PollNoGuid \<longrightarrow> 600 \<le> counter s + 0) \<and>
       poll_replies replies i s =
         poll_finish (replies (i + 0))
           (s\<lparr>counter := counter s + 0, trace := trace s @ poll_retries 0\<rparr>)"
      by (auto simp: poll_retries_def not_less)
    then show ?thesis
      by (rule exI)
  next
    case True
    define s1 where "s1 = poll_request (emit (SetTimeout 2000) (incrementCounter s))"
    from True have step: "poll_replies replies i s = poll_replies replies (Suc i) s1"
      by (simp add: poll_replies.simps [of replies i s] s1_def)
    have s1: "counter s1 = Suc (counter s)" "trace s1 = trace s @ [SetTimeout 2000, poll_request_event]"
      by (simp_all add: s1_def poll_request_def poll_request_event_def ws_defs)
    have s1_eq: "s1\<lparr>counter := counter s1 + k, trace := trace s1 @ poll_retries k\<rparr> =
        s\<lparr>counter := counter s + Suc k, trace := trace s @ poll_retries (Suc k)\<rparr>" for k
      by (simp add: s1_def poll_request_def poll_request_event_def poll_retries_Suc ws_defs)
    from True "1.IH" [of ] obtain k where k:
      "k \<le> 600 - counter s1"
      "\<forall>j. j < k \<longrightarrow> replies (Suc i + j) = PollNoGuid"
      "replies (Suc i + k) = PollNoGuid \<longrightarrow> 600 \<le> counter s1 + k"
      "poll_replies replies (Suc i) s1 =
         poll_finish (replies (Suc i + k))
           (s1\<lparr>counter := counter s1 + k, trace := trace s1 @ poll_retries k\<rparr>)"
      unfolding s1_def by auto
    have before: "\<forall>j. j < Suc k \<longrightarrow> replies (i + j) = PollNoGuid"
    proof (intro allI impI)
      fix j assume "j < Suc k"
      show "replies (i + j) = PollNoGuid"
      proof (cases j)
        case 0
        with True show ?thesis by simp
      next
        case (Suc j')
        with \<open>j < Suc k\<close> k(2) show ?thesis by simp
      qed
    qed
    from True k(1) s1 have bound: "Suc k \<le> 600 - counter s"
      by arith
    from k(3) s1 have last: "replies (i + Suc k) = PollNoGuid \<longrightarrow> 600 \<le> counter s + Suc k"
      by simp
    from step k(4) have final: "poll_replies replies i s =
         poll_finish (replies (i + Suc k))
           (s\<lparr>counter := counter s + Suc k, trace := trace s @ poll_retries (Suc k)\<rparr>)"
      by (simp add: s1_eq)
    from bound before last final show ?thesis
      by blast
  qed
qed

text \<open>
  C7, as amended. A call of \<open>pollForSessionGUID\<close> while a poll is in flight does
  nothing. Otherwise the loop always ends, with the guard cleared: it sends the first
  request and then \<open>k\<close> retries, each after a timer of 2000, where \<open>k\<close> is at most 600
  less the counter it starts with (at most 601 requests) and the counter grows by \<open>k\<close>.
  It ends on the first reply that has a guid (the success callback is called), on the
  first error of the transport (nothing is called), or on a reply without a guid when the
  counter has reached 600.
\<close>

theorem pollForSessionGUID_bounded:
  "(isPolling s \<longrightarrow> pollForSessionGUID replies s = s) \<and>
   (\<not> isPolling s \<longrightarrow>
      (\<exists>k. k \<le> 600 - counter s \<and>
           (\<forall>j. j < k \<longrightarrow> replies j = PollNoGuid) \<and>
           (replies k = PollNoGuid \<longrightarrow> 600 \<le> counter s + k) \<and>
           pollForSessionGUID replies s =
             poll_finish (replies k)
               (s\<lparr>isPolling := True, counter := counter s + k,
                  trace := trace s @ poll_request_event # poll_retries k\<rparr>) \<and>
           \<not> isPolling (pollForSessionGUID replies s)))"
proof (intro conjI impI)
  assume "isPolling s"
  then show "pollForSessionGUID replies s = s"
    by (simp add: pollForSessionGUID_def)
next
  assume idle: "\<not> isPolling s"
  define s0 where "s0 = poll_request (setIsPolling True s)"
  have s0: "counter s0 = counter s"
    by (simp add: s0_def poll_request_def ws_defs)
  have s0_eq: "s0\<lparr>counter := counter s0 + k, trace := trace s0 @ poll_retries k\<rparr> =
      s\<lparr>isPolling := True, counter := counter s + k,
        trace := trace s @ poll_request_event # poll_retries k\<rparr>" for k
    by (simp add: s0_def poll_request_def poll_request_event_def ws_defs)
  from poll_replies_shape [of s0 replies 0] obtain k where k:
    "k \<le> 600 - counter s0"
    "\<forall>j. j < k \<longrightarrow> replies j = PollNoGuid"
    "replies k = PollNoGuid \<longrightarrow> 600 \<le> counter s0 + k"
    "poll_replies replies 0 s0 =
       poll_finish (replies k) (s0\<lparr>counter := counter s0 + k, trace := trace s0 @ poll_retries k\<rparr>)"
    by auto
  from idle k(4) have run: "pollForSessionGUID replies s =
      poll_finish (replies k)
        (s\<lparr>isPolling := True, counter := counter s + k,
           trace := trace s @ poll_request_event # poll_retries k\<rparr>)"
    by (simp add: pollForSessionGUID_def s0_def [symmetric] s0_eq)
  have "\<not> isPolling (pollForSessionGUID replies s)"
    unfolding run by (cases "replies k") (simp_all add: poll_finish_def)
  with k(1-3) s0 run show "\<exists>k. k \<le> 600 - counter s \<and>
           (\<forall>j. j < k \<longrightarrow> replies j = PollNoGuid) \<and>
           (replies k = PollNoGuid \<longrightarrow> 600 \<le> counter s + k) \<and>
           pollForSessionGUID replies s =
             poll_finish (replies k)
               (s\<lparr>isPolling := True, counter := counter s + k,
                  trace := trace s @ poll_request_event # poll_retries k\<rparr>) \<and>
           \<not> isPolling (pollForSessionGUID replies s)"
    by auto
qed

theorem pollForSessionGUID_bounded_witness:
  "isPolling (polled0\<lparr>isPolling := True\<rparr>) \<and>
   pollForSessionGUID poll_guid_third (polled0\<lparr>isPolling := True\<rparr>) =
     polled0\<lparr>isPolling := True\<rparr> \<and>
   \<not> isPolling polled0 \<and> counter polled0 = 598 \<and>
   poll_guid_third 0 = PollNoGuid \<and> poll_guid_third 1 = PollNoGuid \<and>
   poll_guid_third 2 = PollGuid \<and>
   pollForSessionGUID poll_guid_third polled0 =
     poll_finish PollGuid
       (polled0\<lparr>isPolling := True, counter := 600,
          trace := trace polled0 @ poll_request_event # poll_retries 2\<rparr>) \<and>
   \<not> isPolling (pollForSessionGUID poll_guid_third polled0)"
proof -
  have busy: "isPolling (polled0\<lparr>isPolling := True\<rparr>)"
    by simp
  have idle: "\<not> isPolling polled0" and c: "counter polled0 = 598"
    by (simp_all add: polled0_def store0_def)
  have r: "poll_guid_third 0 = PollNoGuid" "poll_guid_third 1 = PollNoGuid"
      "poll_guid_third 2 = PollGuid"
    by (simp_all add: poll_guid_third_def)
  from pollForSessionGUID_bounded [of "polled0\<lparr>isPolling := True\<rparr>" poll_guid_third] busy
  have same: "pollForSessionGUID poll_guid_third (polled0\<lparr>isPolling := True\<rparr>) =
      polled0\<lparr>isPolling := True\<rparr>"
    by blast
  from pollForSessionGUID_bounded [of polled0 poll_guid_third] idle obtain k where k:
    "k \<le> 600 - counter polled0"
    "poll_guid_third k = PollNoGuid \<longrightarrow> 600 \<le> counter polled0 + k"
    "pollForSessionGUID poll_guid_third polled0 =
       poll_finish (poll_guid_third k)
         (polled0\<lparr>isPolling := True, counter := counter polled0 + k,
            trace := trace polled0 @ poll_request_event # poll_retries k\<rparr>)"
    "\<not> isPolling (pollForSessionGUID poll_guid_third polled0)"
    by blast
  from k(1,2) c have "k = 2"
    by (auto simp: poll_guid_third_def split: if_splits)
  with k(3,4) c r busy idle same show ?thesis
    by simp
qed

text \<open>
  C7, as stated, fails where the transport answers the first request with an error: the
  loop ends there, with the guard cleared, although no guid was received (the success
  callback is not called) and the counter, still 0, is far from its bound.
\<close>

theorem pollForSessionGUID_ends_on_error:
  "\<not> isPolling (pollForSessionGUID poll_always_failed store0) \<and>
   trace (pollForSessionGUID poll_always_failed store0) = [poll_request_event] \<and>
   counter (pollForSessionGUID poll_always_failed store0) = 0 \<and>
   \<not> (Callback ''successCallback'' [] \<in> set (trace (pollForSessionGUID poll_always_failed store0)) \<or>
      600 \<le> counter (pollForSessionGUID poll_always_failed store0))"
  by (simp add: pollForSessionGUID_def poll_replies.simps [of poll_always_failed 0]
      poll_always_failed_def poll_request_def poll_request_event_def store0_def ws_defs)

subsection \<open>The two-factor code\<close>

text \<open>
  A code of length 0 or above 255 makes \<open>tryToFetchWalletWith2FA\<close> throw the
  ReferenceError of \<^verbatim>\<open>otherError\<close>: nothing is sent and no callback is called.
\<close>

lemma tryToFetchWalletWith2FA_rejects:
  assumes "length c = 0 \<or> 255 < length c"
  shows "tryToFetchWalletWith2FA env g type (JStr c) s = (Some (not_defined ''otherError''), s)"
  using assms by (auto simp: tryToFetchWalletWith2FA_def throw_def)

text \<open>
  A code of 1 to 255 characters is sent, in upper case for the types 2, 4 and 5 and as it
  is for every other type.
\<close>

lemma tryToFetchWalletWith2FA_submits:
  assumes "0 < length c" and "length c \<le> 255"
  shows "tryToFetchWalletWith2FA env g type (JStr c) s =
    (None,
     s\<lparr>trace := trace s @
          [ApiRequest ''POST'' ''wallet''
             [(''guid'', JStr g),
              (''payload'',
               JStr (if type = JNum 2 \<or> type = JNum 4 \<or> type = JNum 5
                     then toUpperCase env c else c)),
              (''length'',
               JNum (int (length (if type = JNum 2 \<or> type = JNum 4 \<or> type = JNum 5
                                  then toUpperCase env c else c)))),
              (''method'', JStr ''get-wallet''), (''format'', JStr ''plain''),
              (''api_code'', API_CODE env)]]\<rparr>)"
  using assms by (auto simp: tryToFetchWalletWith2FA_def ret_def ws_defs Let_def)

text \<open>
  A code the server rejects: the restoring flag is cleared and then the
  \<^verbatim>\<open>wrongTwoFactorCode\<close> callback is called with the response.
\<close>

lemma twoFactor_error_clears:
  assumes "cb_wrongTwoFactorCode cbs"
  shows "twoFactor_reply env pw cbs (Inl response) s =
    (None, s\<lparr>isRestoringWallet := False,
             trace := trace s @ [Callback ''wrongTwoFactorCode'' [response]]\<rparr>)"
  using assms by (simp add: twoFactor_reply_def twoFactor_error_def ret_def ws_defs)

text \<open>
  C6 fails on the code: a login with an empty SMS code, by a caller that passes every
  callback, in a fresh session. The code is rejected before any request is made, but not
  through the error callback: line 254 calls \<^verbatim>\<open>otherError\<close>, a name that is bound
  nowhere, so \<^verbatim>\<open>login\<close> throws a ReferenceError and calls no callback at all (the
  trace is unchanged). Line 230 calls \<^verbatim>\<open>callbacks.otherError\<close>, as this path
  should.
\<close>

theorem login_empty_code_throws:
  "login env0 ''guid-0'' (JStr ''pw'') empty_code0 callbacks0 store0 =
     (Some (JErr ''ReferenceError'' ''otherError is not defined''), store0)"
  by (simp add: login_def empty_code0_def callbacks0_def store0_def
      tryToFetchWalletWith2FA_def not_defined_def throw_def)

end
